theory Spec2Isabelle
  imports Main "HOL-Library.Word"
begin

unbundle bit_operations_syntax

section \<open>The EVMC data the example VM works on\<close>

text \<open>
  The example VM (\<^verbatim>\<open>examples/example_vm/example_vm.cpp\<close>) is written against the C
  interface of \<^verbatim>\<open>evmc/evmc.h\<close> and \<^verbatim>\<open>evmc/helpers.h\<close>. The two headers are not
  among the sources at hand; what the VM uses of them is declared in this section, each
  declaration under a note that says so. The types are embedded as follows.

  \<^item> \<^verbatim>\<open>evmc_uint256be\<close> is an array \<^verbatim>\<open>bytes[32]\<close> holding a big-endian number. It is
    embedded as a 256-bit word: \<^verbatim>\<open>bytes[31]\<close> is the least significant byte,
    \<^verbatim>\<open>bytes[0]\<close> the most significant one.
  \<^item> \<^verbatim>\<open>evmc_address\<close> is an array \<^verbatim>\<open>bytes[20]\<close>, embedded as a 160-bit word in the
    same way.
  \<^item> A pointer together with a size (\<^verbatim>\<open>input_data\<close>/\<^verbatim>\<open>input_size\<close>,
    \<^verbatim>\<open>output_data\<close>/\<^verbatim>\<open>output_size\<close>, \<^verbatim>\<open>code\<close>/\<^verbatim>\<open>code_size\<close>) is a list of bytes;
    the size is the length of the list.
  \<^item> \<^verbatim>\<open>int64_t\<close> values are integers; the one place where the program can leave the
    range of \<^verbatim>\<open>int64_t\<close> is written out in the loop below.
\<close>

type_synonym uint8_t = "8 word"
type_synonym evmc_uint256be = "256 word"
type_synonym evmc_address = "160 word"

text \<open>
  Modelled from the spec: \<^verbatim>\<open>enum evmc_status_code\<close> of \<^verbatim>\<open>evmc.h\<close>. The specification
  names the outcomes Success, Revert, OutOfGas, UndefinedInstruction, StackUnderflow,
  StackOverflow and MemoryBoundsExceeded (here \<open>EVMC_INVALID_MEMORY_ACCESS\<close>); the other
  codes are statuses a nested call may report.
\<close>

datatype evmc_status_code =
    EVMC_SUCCESS
  | EVMC_FAILURE
  | EVMC_REVERT
  | EVMC_OUT_OF_GAS
  | EVMC_INVALID_INSTRUCTION
  | EVMC_UNDEFINED_INSTRUCTION
  | EVMC_STACK_OVERFLOW
  | EVMC_STACK_UNDERFLOW
  | EVMC_BAD_JUMP_DESTINATION
  | EVMC_INVALID_MEMORY_ACCESS
  | EVMC_CALL_DEPTH_EXCEEDED
  | EVMC_STATIC_MODE_VIOLATION
  | EVMC_INTERNAL_ERROR
  | EVMC_REJECTED
  | EVMC_OUT_OF_MEMORY

text \<open>
  Modelled from the spec: \<^verbatim>\<open>enum evmc_revision\<close> of \<^verbatim>\<open>evmc.h\<close>, the feature gate of
  the specification. The revisions are listed in the order of their numeric values, which
  \<open>revision_number\<close> gives; Byzantium is the revision that introduces REVERT.
\<close>

datatype evmc_revision =
    EVMC_FRONTIER
  | EVMC_HOMESTEAD
  | EVMC_TANGERINE_WHISTLE
  | EVMC_SPURIOUS_DRAGON
  | EVMC_BYZANTIUM
  | EVMC_CONSTANTINOPLE
  | EVMC_PETERSBURG
  | EVMC_ISTANBUL
  | EVMC_BERLIN

fun revision_number :: "evmc_revision \<Rightarrow> nat" where
  "revision_number EVMC_FRONTIER = 0"
| "revision_number EVMC_HOMESTEAD = 1"
| "revision_number EVMC_TANGERINE_WHISTLE = 2"
| "revision_number EVMC_SPURIOUS_DRAGON = 3"
| "revision_number EVMC_BYZANTIUM = 4"
| "revision_number EVMC_CONSTANTINOPLE = 5"
| "revision_number EVMC_PETERSBURG = 6"
| "revision_number EVMC_ISTANBUL = 7"
| "revision_number EVMC_BERLIN = 8"

text \<open>
  Modelled from the spec: \<^verbatim>\<open>enum evmc_call_kind\<close> and \<^verbatim>\<open>enum evmc_set_option_result\<close>
  of \<^verbatim>\<open>evmc.h\<close>; the latter holds the invalid-name and invalid-value signals of the
  specification.
\<close>

datatype evmc_call_kind =
    EVMC_CALL
  | EVMC_DELEGATECALL
  | EVMC_CALLCODE
  | EVMC_CREATE
  | EVMC_CREATE2

datatype evmc_set_option_result =
    EVMC_SET_OPTION_SUCCESS
  | EVMC_SET_OPTION_INVALID_NAME
  | EVMC_SET_OPTION_INVALID_VALUE

text \<open>
  Modelled from the spec: \<^verbatim>\<open>struct evmc_message\<close> of \<^verbatim>\<open>evmc.h\<close>, the message of the
  specification (sender, destination, value, gas, input bytes, call depth, flags). The
  field \<^verbatim>\<open>value\<close> is called \<open>msg_value\<close> here; \<^verbatim>\<open>input_size\<close> is
  \<open>length (input_data msg)\<close>.
\<close>

record evmc_message =
  kind :: evmc_call_kind
  flags :: "32 word"
  depth :: int
  gas :: int
  destination :: evmc_address
  sender :: evmc_address
  input_data :: "uint8_t list"
  msg_value :: evmc_uint256be

text \<open>
  Modelled from the spec: \<^verbatim>\<open>struct evmc_result\<close> of \<^verbatim>\<open>evmc.h\<close>, the result of the
  specification (status code, remaining gas, output buffer with a release obligation).
  \<open>release\<close> tells whether the \<^verbatim>\<open>release\<close> function pointer of the result is set (not
  \<^verbatim>\<open>nullptr\<close>); \<^verbatim>\<open>output_size\<close> is \<open>length (output_data r)\<close>.
\<close>

record evmc_result =
  status_code :: evmc_status_code
  gas_left :: int
  output_data :: "uint8_t list"
  release :: bool

text \<open>
  Modelled from the spec: \<^verbatim>\<open>struct evmc_tx_context\<close> of \<^verbatim>\<open>evmc.h\<close>, the transaction
  context of the specification. The example VM reads the block number; three more fields
  stand for the rest of the context.
\<close>

record evmc_tx_context =
  tx_origin :: evmc_address
  block_number :: int
  block_timestamp :: int
  block_gas_limit :: int

text \<open>
  Modelled from the spec: \<^verbatim>\<open>struct evmc_host_interface\<close> of \<^verbatim>\<open>evmc.h\<close>, the host
  capability of the specification, with the four functions the example VM calls. The
  host is an external collaborator; what stands behind the pointer
  \<^verbatim>\<open>evmc_host_context*\<close> is a value of an arbitrary type \<open>'h\<close>, which every host function
  may change. The status that \<^verbatim>\<open>set_storage\<close> returns is dropped by the VM and is not
  part of the model.
\<close>

record 'h evmc_host_interface =
  get_storage :: "'h \<Rightarrow> evmc_address \<Rightarrow> evmc_uint256be \<Rightarrow> evmc_uint256be \<times> 'h"
  set_storage :: "'h \<Rightarrow> evmc_address \<Rightarrow> evmc_uint256be \<Rightarrow> evmc_uint256be \<Rightarrow> 'h"
  get_tx_context :: "'h \<Rightarrow> evmc_tx_context \<times> 'h"
  call :: "'h \<Rightarrow> evmc_message \<Rightarrow> evmc_result \<times> 'h"

text \<open>
  Modelled from the spec: \<^verbatim>\<open>evmc_make_result\<close> of \<^verbatim>\<open>evmc/helpers.h\<close>. It builds the
  result of the specification from a status, the remaining gas and the \<^verbatim>\<open>output_size\<close>
  bytes at \<^verbatim>\<open>output_data\<close>, of which the result owns a copy; the argument \<open>out\<close> is that
  range of bytes. The release obligation exists when there is an output to release. The
  allocation of the copy is taken to succeed.
\<close>

definition evmc_make_result :: "evmc_status_code \<Rightarrow> int \<Rightarrow> uint8_t list \<Rightarrow> evmc_result" where
  "evmc_make_result st g out =
     \<lparr>status_code = st, gas_left = g, output_data = out, release = (out \<noteq> [])\<rparr>"

text \<open>Reading \<^verbatim>\<open>bytes[31]\<close> of a word, and the word \<^verbatim>\<open>value = {}; value.bytes[31] = b\<close>.\<close>

definition byte31 :: "evmc_uint256be \<Rightarrow> uint8_t" where
  "byte31 w = ucast w"

definition uint256be_of_byte :: "uint8_t \<Rightarrow> evmc_uint256be" where
  "uint256be_of_byte b = ucast b"

text \<open>The 32 bytes of a word, \<^verbatim>\<open>bytes[0]\<close> first, and the word of a list of bytes.\<close>

definition bytes_of_uint256be :: "evmc_uint256be \<Rightarrow> uint8_t list" where
  "bytes_of_uint256be w = map (\<lambda>i. ucast (drop_bit (8 * (31 - i)) w)) [0..<32]"

definition uint256be_of_bytes :: "uint8_t list \<Rightarrow> evmc_uint256be" where
  "uint256be_of_bytes bs = foldl (\<lambda>acc b. push_bit 8 acc OR ucast b) 0 bs"

section \<open>The VM instance and its option\<close>

record ExampleVM =
  verbose :: int

text \<open>
  \<^verbatim>\<open>set_option\<close>. The name is a string, the value a string or \<^verbatim>\<open>nullptr\<close> (\<open>None\<close>).
  \<^verbatim>\<open>std::strtol\<close> belongs to the C library, not to this program: it is the parameter
  \<open>strtol\<close>, which maps the string and the base to the number parsed and to the number
  of characters consumed (\<^verbatim>\<open>end - value\<close>). The function returns the result code and
  the instance, changed or not.
\<close>

definition set_option ::
  "(string \<Rightarrow> nat \<Rightarrow> int \<times> nat) \<Rightarrow> ExampleVM \<Rightarrow> string \<Rightarrow> string option
     \<Rightarrow> evmc_set_option_result \<times> ExampleVM" where
  "set_option strtol vm name val =
     (if name = ''verbose'' then
        (case val of
           None \<Rightarrow> (EVMC_SET_OPTION_INVALID_VALUE, vm)
         | Some s \<Rightarrow>
             (let (v, consumed) = strtol s 0 in
              if consumed = 0 then (EVMC_SET_OPTION_INVALID_VALUE, vm)
              else if v > 9 \<or> v < -1 then (EVMC_SET_OPTION_INVALID_VALUE, vm)
              else (EVMC_SET_OPTION_SUCCESS, vm\<lparr>verbose := v\<rparr>)))
      else (EVMC_SET_OPTION_INVALID_NAME, vm))"

text \<open>
  The conversion \<open>c_strtol\<close> is \<^verbatim>\<open>strtol\<close> as the C standard describes it, for a
  64-bit \<^verbatim>\<open>long\<close>: white space is skipped, a sign is read, with base 0 the prefixes
  \<^verbatim>\<open>0x\<close> and \<^verbatim>\<open>0\<close> select base 16 and base 8, the longest run of digits is converted,
  and a value out of range is replaced by the nearest bound. Without a digit nothing is
  consumed and the value is 0.
\<close>

definition isspace :: "char \<Rightarrow> bool" where
  "isspace c = (c \<in> set [CHR '' '', CHR 0x09, CHR 0x0A, CHR 0x0B, CHR 0x0C, CHR 0x0D])"

definition digit_value :: "char \<Rightarrow> nat" where
  "digit_value c =
     (let n = (of_char c :: nat) in
      if 48 \<le> n \<and> n \<le> 57 then n - 48
      else if 97 \<le> n \<and> n \<le> 122 then n - 87
      else if 65 \<le> n \<and> n \<le> 90 then n - 55
      else 36)"

definition hex_prefix :: "string \<Rightarrow> bool" where
  "hex_prefix s =
     (case s of
        z # x # d # _ \<Rightarrow> z = CHR ''0'' \<and> (x = CHR ''x'' \<or> x = CHR ''X'') \<and> digit_value d < 16
      | _ \<Rightarrow> False)"

definition c_strtol :: "string \<Rightarrow> nat \<Rightarrow> int \<times> nat" where
  "c_strtol s base =
     (let ws = takeWhile isspace s;
          s1 = dropWhile isspace s;
          (neg, sign_len, s2) =
            (case s1 of
               [] \<Rightarrow> (False, 0, s1)
             | c # t \<Rightarrow> if c = CHR ''-'' then (True, 1, t)
                        else if c = CHR ''+'' then (False, 1, t)
                        else (False, 0, s1));
          (b, prefix_len, s3) =
            (if (base = 0 \<or> base = 16) \<and> hex_prefix s2 then (16, 2, drop 2 s2)
             else if base = 0 then (if take 1 s2 = ''0'' then (8, 0, s2) else (10, 0, s2))
             else (base, 0, s2));
          ds = takeWhile (\<lambda>c. digit_value c < b) s3;
          n = foldl (\<lambda>acc c. acc * int b + int (digit_value c)) 0 ds;
          v = (if neg then - n else n)
      in if ds = [] then (0, 0)
         else (max (- (2 ^ 63)) (min (2 ^ 63 - 1) v),
               length ws + sign_len + prefix_len + length ds))"

section \<open>Stack and memory\<close>

text \<open>
  \<^verbatim>\<open>struct Stack\<close> is an array \<^verbatim>\<open>items[1024]\<close> and a pointer to the first empty slot.
  Only the slots below the pointer are ever read, so the stack is the list of these
  slots, the top one first. Neither \<^verbatim>\<open>pop\<close> nor \<^verbatim>\<open>push\<close> checks a bound: \<^verbatim>\<open>pop\<close> on
  the empty stack reads the slot before the array and \<^verbatim>\<open>push\<close> on a full stack writes
  behind it. C++ gives no meaning to either; the model returns \<open>None\<close> there.
\<close>

type_synonym Stack = "evmc_uint256be list"

definition pop :: "Stack \<Rightarrow> (evmc_uint256be \<times> Stack) option" where
  "pop s = (case s of [] \<Rightarrow> None | x # r \<Rightarrow> Some (x, r))"

definition push :: "evmc_uint256be \<Rightarrow> Stack \<Rightarrow> Stack option" where
  "push v s = (if length s < 1024 then Some (v # s) else None)"

text \<open>
  \<^verbatim>\<open>struct Memory\<close>: the high-water mark \<^verbatim>\<open>size\<close> and the buffer \<^verbatim>\<open>data[1024]\<close>, here
  \<open>mem_size\<close> and \<open>mem_data\<close>. \<^verbatim>\<open>Memory::set\<close> copies without a check; a copy that
  leaves the buffer, or reads more bytes than the source has, has no meaning in C++ and
  is \<open>None\<close> in the model. A copy of 0 bytes does nothing, whatever the source pointer is.
\<close>

record Memory =
  mem_size :: nat
  mem_data :: "uint8_t list"

definition Memory_set :: "Memory \<Rightarrow> nat \<Rightarrow> uint8_t list \<Rightarrow> nat \<Rightarrow> Memory option" where
  "Memory_set mem index value_data value_size =
     (if index + value_size \<le> length (mem_data mem) \<and> value_size \<le> length value_data then
        (let data' = take index (mem_data mem) @ take value_size value_data
                       @ drop (index + value_size) (mem_data mem);
             new_size = index + value_size
         in Some \<lparr>mem_size = (if new_size > mem_size mem then new_size else mem_size mem),
                  mem_data = data'\<rparr>)
      else None)"

text \<open>The bytes \<^verbatim>\<open>&memory.data[index]\<close> up to \<^verbatim>\<open>size\<close>, as handed to a result or a message.\<close>

definition memory_slice :: "Memory \<Rightarrow> nat \<Rightarrow> nat \<Rightarrow> uint8_t list" where
  "memory_slice mem index n = take n (drop index (mem_data mem))"

section \<open>The interpreter\<close>

text \<open>
  The local variables of \<^verbatim>\<open>execute\<close>: the program counter, the gas counter (called
  \<open>gas_left_local\<close>, to keep it apart from the field of the result), the stack and the
  memory. \<open>host_context\<close> is what the pointer \<^verbatim>\<open>context\<close> refers to. Three more fields
  record what the run did to the outside: the nested results whose \<^verbatim>\<open>release\<close> function
  was called, the number of instructions dispatched so far, and the lines written by
  \<^verbatim>\<open>std::puts\<close>.
\<close>

record 'h machine =
  pc :: nat
  gas_left_local :: int
  stack :: Stack
  memory :: Memory
  host_context :: 'h
  released :: "evmc_result list"
  executed :: nat
  stdout :: "string list"

text \<open>
  Where the C++ program has no defined behaviour, the model stops with the reason.
\<close>

datatype undefined_behaviour =
    Read_Below_Stack
  | Write_Above_Stack
  | Read_Past_Code
  | Copy_Out_Of_Bounds
  | Gas_Counter_Overflow

text \<open>
  One pass through the \<^verbatim>\<open>switch\<close> either leaves it by \<^verbatim>\<open>break\<close> (\<open>Continue\<close>), or
  returns a result from \<^verbatim>\<open>execute\<close> (\<open>Return\<close>, with the state at that point), or has
  no defined behaviour.
\<close>

datatype 'h step =
    Continue "'h machine"
  | Return evmc_result "'h machine"
  | Undefined undefined_behaviour

text \<open>
  The statements of a \<^verbatim>\<open>case\<close> run in sequence. \<open>with_pop s k\<close> is a \<^verbatim>\<open>stack.pop()\<close>
  followed by the rest \<open>k\<close> of the statements, which gets the item popped and the stack
  left; \<open>with_push\<close> and \<open>with_set\<close> are \<^verbatim>\<open>stack.push\<close> and \<^verbatim>\<open>memory.set\<close> in the
  same way. Where the call has no defined behaviour the rest is not run.
\<close>

definition with_pop :: "Stack \<Rightarrow> (evmc_uint256be \<Rightarrow> Stack \<Rightarrow> 'h step) \<Rightarrow> 'h step" where
  "with_pop s k = (case pop s of None \<Rightarrow> Undefined Read_Below_Stack | Some (x, s') \<Rightarrow> k x s')"

definition with_push :: "evmc_uint256be \<Rightarrow> Stack \<Rightarrow> (Stack \<Rightarrow> 'h step) \<Rightarrow> 'h step" where
  "with_push v s k = (case push v s of None \<Rightarrow> Undefined Write_Above_Stack | Some s' \<Rightarrow> k s')"

definition with_set ::
  "Memory \<Rightarrow> nat \<Rightarrow> uint8_t list \<Rightarrow> nat \<Rightarrow> (Memory \<Rightarrow> 'h step) \<Rightarrow> 'h step" where
  "with_set mem index value_data value_size k =
     (case Memory_set mem index value_data value_size of
        None \<Rightarrow> Undefined Copy_Out_Of_Bounds
      | Some mem' \<Rightarrow> k mem')"

text \<open>\<^verbatim>\<open>case 0x00: // STOP\<close>\<close>

definition op_STOP :: "'h machine \<Rightarrow> 'h step" where
  "op_STOP m = Return (evmc_make_result EVMC_SUCCESS (gas_left_local m) []) m"

text \<open>\<^verbatim>\<open>case 0x01: // ADD\<close>, on \<^verbatim>\<open>uint8_t\<close>.\<close>

definition op_ADD :: "'h machine \<Rightarrow> 'h step" where
  "op_ADD m =
     with_pop (stack m) (\<lambda>x s1.
     with_pop s1 (\<lambda>y s2.
       let a = byte31 x;
           b = byte31 y;
           sum = a + b
       in with_push (uint256be_of_byte sum) s2 (\<lambda>s3. Continue (m\<lparr>stack := s3\<rparr>))))"

text \<open>\<^verbatim>\<open>case 0x30: // ADDRESS\<close>: the 20 bytes of the destination go to \<^verbatim>\<open>bytes[12..31]\<close>.\<close>

definition op_ADDRESS :: "evmc_message \<Rightarrow> 'h machine \<Rightarrow> 'h step" where
  "op_ADDRESS msg m =
     (let address = destination msg;
          val = (ucast address :: evmc_uint256be)
      in with_push val (stack m) (\<lambda>s1. Continue (m\<lparr>stack := s1\<rparr>)))"

text \<open>
  \<^verbatim>\<open>case 0x35: // CALLDATALOAD\<close>: \<^verbatim>\<open>copy_size\<close> bytes of the input from \<^verbatim>\<open>offset\<close> on
  become the first bytes of the word, the other bytes stay zero.
\<close>

definition op_CALLDATALOAD :: "evmc_message \<Rightarrow> 'h machine \<Rightarrow> 'h step" where
  "op_CALLDATALOAD msg m =
     with_pop (stack m) (\<lambda>x s1.
       let offset = unat (byte31 x);
           input_size = length (input_data msg);
           copy_size = (if offset < input_size then input_size - offset else 0);
           copy_size = (if copy_size > 32 then 32 else copy_size);
           val = uint256be_of_bytes
                   (take copy_size (drop offset (input_data msg)) @ replicate (32 - copy_size) 0)
       in with_push val s1 (\<lambda>s2. Continue (m\<lparr>stack := s2\<rparr>)))"

text \<open>\<^verbatim>\<open>case 0x43: // NUMBER\<close>: the block number, cast to \<^verbatim>\<open>uint8_t\<close>.\<close>

definition op_NUMBER :: "'h evmc_host_interface \<Rightarrow> 'h machine \<Rightarrow> 'h step" where
  "op_NUMBER host m =
     (let (tx, h) = get_tx_context host (host_context m);
          val = uint256be_of_byte (word_of_int (block_number tx))
      in with_push val (stack m) (\<lambda>s1. Continue (m\<lparr>stack := s1, host_context := h\<rparr>)))"

text \<open>\<^verbatim>\<open>case 0x52: // MSTORE\<close>: the index is a \<^verbatim>\<open>uint8_t\<close>.\<close>

definition op_MSTORE :: "'h machine \<Rightarrow> 'h step" where
  "op_MSTORE m =
     with_pop (stack m) (\<lambda>x s1.
     with_pop s1 (\<lambda>val s2.
       let index = byte31 x
       in with_set (memory m) (unat index) (bytes_of_uint256be val) 32
            (\<lambda>mem. Continue (m\<lparr>stack := s2, memory := mem\<rparr>))))"

text \<open>\<^verbatim>\<open>case 0x54: // SLOAD\<close>\<close>

definition op_SLOAD :: "'h evmc_host_interface \<Rightarrow> evmc_message \<Rightarrow> 'h machine \<Rightarrow> 'h step" where
  "op_SLOAD host msg m =
     with_pop (stack m) (\<lambda>index s1.
       let (val, h) = get_storage host (host_context m) (destination msg) index
       in with_push val s1 (\<lambda>s2. Continue (m\<lparr>stack := s2, host_context := h\<rparr>)))"

text \<open>\<^verbatim>\<open>case 0x55: // SSTORE\<close>\<close>

definition op_SSTORE :: "'h evmc_host_interface \<Rightarrow> evmc_message \<Rightarrow> 'h machine \<Rightarrow> 'h step" where
  "op_SSTORE host msg m =
     with_pop (stack m) (\<lambda>index s1.
     with_pop s1 (\<lambda>val s2.
       let h = set_storage host (host_context m) (destination msg) index val
       in Continue (m\<lparr>stack := s2, host_context := h\<rparr>)))"

text \<open>\<^verbatim>\<open>case 0x59: // MSIZE\<close>: the size, cast to \<^verbatim>\<open>uint8_t\<close>.\<close>

definition op_MSIZE :: "'h machine \<Rightarrow> 'h step" where
  "op_MSIZE m =
     (let size_as_byte = (of_nat (mem_size (memory m)) :: uint8_t);
          val = uint256be_of_byte size_as_byte
      in with_push val (stack m) (\<lambda>s1. Continue (m\<lparr>stack := s1\<rparr>)))"

text \<open>
  \<^verbatim>\<open>case 0x60: // PUSH1\<close>: reads \<^verbatim>\<open>code[pc + 1]\<close> without a check, which is outside the
  code when PUSH1 is its last byte.
\<close>

definition op_PUSH1 :: "uint8_t list \<Rightarrow> 'h machine \<Rightarrow> 'h step" where
  "op_PUSH1 code m =
     (if pc m + 1 < length code then
        (let byte = code ! (pc m + 1);
             m1 = m\<lparr>pc := pc m + 1\<rparr>;
             val = uint256be_of_byte byte
         in with_push val (stack m1) (\<lambda>s1. Continue (m1\<lparr>stack := s1\<rparr>)))
      else Undefined Read_Past_Code)"

text \<open>\<^verbatim>\<open>case 0x80: // DUP1\<close>\<close>

definition op_DUP1 :: "'h machine \<Rightarrow> 'h step" where
  "op_DUP1 m =
     with_pop (stack m) (\<lambda>val s1.
     with_push val s1 (\<lambda>s2.
     with_push val s2 (\<lambda>s3. Continue (m\<lparr>stack := s3\<rparr>))))"

text \<open>
  \<^verbatim>\<open>case 0xf1: // CALL\<close>. The message starts as \<^verbatim>\<open>evmc_message call_msg = {}\<close>; the
  gas, the offsets and the sizes are taken from \<^verbatim>\<open>bytes[31]\<close> of the operands.
  \<open>make_call_msg\<close> is the message as it is handed to the host, from the memory and the
  first five operands.
\<close>

definition make_call_msg ::
  "Memory \<Rightarrow> evmc_uint256be \<Rightarrow> evmc_uint256be \<Rightarrow> evmc_uint256be \<Rightarrow> evmc_uint256be
     \<Rightarrow> evmc_uint256be \<Rightarrow> evmc_message" where
  "make_call_msg mem g a v in_off in_size =
     (let call_input_offset = byte31 in_off
      in \<lparr>kind = EVMC_CALL, flags = 0, depth = 0,
          gas = uint (byte31 g),
          destination = (ucast a :: evmc_address),
          sender = 0,
          input_data = memory_slice mem (unat call_input_offset) (unat (byte31 in_size)),
          msg_value = v\<rparr>)"

definition op_CALL :: "'h evmc_host_interface \<Rightarrow> 'h machine \<Rightarrow> 'h step" where
  "op_CALL host m =
     with_pop (stack m) (\<lambda>g s1.
     with_pop s1 (\<lambda>a s2.
     with_pop s2 (\<lambda>v s3.
     with_pop s3 (\<lambda>in_off s4.
     with_pop s4 (\<lambda>in_size s5.
     with_pop s5 (\<lambda>out_off s6.
     with_pop s6 (\<lambda>out_size s7.
       let call_msg = make_call_msg (memory m) g a v in_off in_size;
           call_output_offset = byte31 out_off;
           call_output_size = unat (byte31 out_size);
           (call_result, h) = call host (host_context m) call_msg;
           val = uint256be_of_byte (if status_code call_result = EVMC_SUCCESS then 1 else 0)
       in with_push val s7 (\<lambda>s8.
            let call_output_size =
                  (if call_output_size > length (output_data call_result)
                   then length (output_data call_result) else call_output_size)
            in with_set (memory m) (unat call_output_offset) (output_data call_result)
                 call_output_size
                 (\<lambda>mem. Continue
                    (m\<lparr>stack := s8, memory := mem, host_context := h,
                       released := (if release call_result
                                    then released m @ [call_result] else released m)\<rparr>)))
     )))))))"

text \<open>\<^verbatim>\<open>case 0xf3: // RETURN\<close>\<close>

definition op_RETURN :: "'h machine \<Rightarrow> 'h step" where
  "op_RETURN m =
     with_pop (stack m) (\<lambda>x s1.
     with_pop s1 (\<lambda>y s2.
       let index = byte31 x;
           sz = byte31 y
       in Return (evmc_make_result EVMC_SUCCESS (gas_left_local m)
                    (memory_slice (memory m) (unat index) (unat sz)))
            (m\<lparr>stack := s2\<rparr>)))"

text \<open>\<^verbatim>\<open>case 0xfd: // REVERT\<close>\<close>

definition op_REVERT :: "evmc_revision \<Rightarrow> 'h machine \<Rightarrow> 'h step" where
  "op_REVERT revision m =
     (if revision_number revision < revision_number EVMC_BYZANTIUM then
        Return (evmc_make_result EVMC_UNDEFINED_INSTRUCTION 0 []) m
      else
        with_pop (stack m) (\<lambda>x s1.
        with_pop s1 (\<lambda>y s2.
          let index = byte31 x;
              sz = byte31 y
          in Return (evmc_make_result EVMC_REVERT (gas_left_local m)
                       (memory_slice (memory m) (unat index) (unat sz)))
               (m\<lparr>stack := s2\<rparr>))))"

text \<open>The \<^verbatim>\<open>switch (code[pc])\<close>.\<close>

definition dispatch ::
  "'h evmc_host_interface \<Rightarrow> evmc_revision \<Rightarrow> evmc_message \<Rightarrow> uint8_t list
     \<Rightarrow> 'h machine \<Rightarrow> 'h step" where
  "dispatch host revision msg code m =
     (let opcode = code ! pc m in
      if opcode = 0x00 then op_STOP m
      else if opcode = 0x01 then op_ADD m
      else if opcode = 0x30 then op_ADDRESS msg m
      else if opcode = 0x35 then op_CALLDATALOAD msg m
      else if opcode = 0x43 then op_NUMBER host m
      else if opcode = 0x52 then op_MSTORE m
      else if opcode = 0x54 then op_SLOAD host msg m
      else if opcode = 0x55 then op_SSTORE host msg m
      else if opcode = 0x59 then op_MSIZE m
      else if opcode = 0x60 then op_PUSH1 code m
      else if opcode = 0x80 then op_DUP1 m
      else if opcode = 0xf1 then op_CALL host m
      else if opcode = 0xf3 then op_RETURN m
      else if opcode = 0xfd then op_REVERT revision m
      else Return (evmc_make_result EVMC_UNDEFINED_INSTRUCTION 0 []) m)"

text \<open>
  A pass through the \<^verbatim>\<open>switch\<close> that ends in \<^verbatim>\<open>break\<close> never moves the program counter
  back; the loop of the interpreter terminates for this reason.
\<close>

lemma with_pop_Continue:
  "with_pop s k = Continue m' \<Longrightarrow> (\<And>x s'. k x s' = Continue m' \<Longrightarrow> P) \<Longrightarrow> P"
  by (auto simp: with_pop_def split: option.splits)

lemma with_push_Continue:
  "with_push v s k = Continue m' \<Longrightarrow> (\<And>s'. k s' = Continue m' \<Longrightarrow> P) \<Longrightarrow> P"
  by (auto simp: with_push_def split: option.splits)

lemma with_set_Continue:
  "with_set mem i d n k = Continue m' \<Longrightarrow> (\<And>mem'. k mem' = Continue m' \<Longrightarrow> P) \<Longrightarrow> P"
  by (auto simp: with_set_def split: option.splits)

lemmas op_defs =
  op_STOP_def op_ADD_def op_ADDRESS_def op_CALLDATALOAD_def op_NUMBER_def op_MSTORE_def
  op_SLOAD_def op_SSTORE_def op_MSIZE_def op_PUSH1_def op_DUP1_def op_CALL_def op_RETURN_def
  op_REVERT_def

lemma dispatch_pc:
  "dispatch host revision msg code m = Continue m' \<Longrightarrow> pc m \<le> pc m'"
  unfolding dispatch_def Let_def
  by (auto simp: op_defs Let_def split: if_splits prod.splits
      elim!: with_pop_Continue with_push_Continue with_set_Continue)

text \<open>
  The body of the loop of \<^verbatim>\<open>execute\<close>, with the \<^verbatim>\<open>pc++\<close> that follows it when the
  \<^verbatim>\<open>switch\<close> was left by \<^verbatim>\<open>break\<close>. \<^verbatim>\<open>gas_left -= 1\<close> is a subtraction on
  \<^verbatim>\<open>int64_t\<close>: it has no defined result when the counter holds the least value of that
  type.
\<close>

definition iteration ::
  "'h evmc_host_interface \<Rightarrow> evmc_revision \<Rightarrow> evmc_message \<Rightarrow> uint8_t list
     \<Rightarrow> 'h machine \<Rightarrow> 'h step" where
  "iteration host revision msg code m =
     (if gas_left_local m - 1 < - (2 ^ 63) then Undefined Gas_Counter_Overflow
      else
        (let m1 = m\<lparr>gas_left_local := gas_left_local m - 1\<rparr> in
         if gas_left_local m1 < 0 then Return (evmc_make_result EVMC_OUT_OF_GAS 0 []) m1
         else
           (case dispatch host revision msg code (m1\<lparr>executed := executed m1 + 1\<rparr>) of
              Continue m2 \<Rightarrow> Continue (m2\<lparr>pc := pc m2 + 1\<rparr>)
            | Return r m2 \<Rightarrow> Return r m2
            | Undefined u \<Rightarrow> Undefined u)))"

lemma iteration_pc:
  "iteration host revision msg code m = Continue m' \<Longrightarrow> pc m < pc m'"
  by (auto simp: iteration_def Let_def split: if_splits step.splits dest!: dispatch_pc)

text \<open>
  The loop \<^verbatim>\<open>for (size_t pc = 0; pc < code_size; pc++)\<close>, from any state of the local
  variables, and the \<^verbatim>\<open>return\<close> behind it.
\<close>

function loop ::
  "'h evmc_host_interface \<Rightarrow> evmc_revision \<Rightarrow> evmc_message \<Rightarrow> uint8_t list
     \<Rightarrow> 'h machine \<Rightarrow> 'h step" where
  "loop host revision msg code m =
     (if pc m < length code then
        (case iteration host revision msg code m of
           Continue m' \<Rightarrow> loop host revision msg code m'
         | Return r m' \<Rightarrow> Return r m'
         | Undefined u \<Rightarrow> Undefined u)
      else Return (evmc_make_result EVMC_SUCCESS (gas_left_local m) []) m)"
  by pat_completeness auto
termination
  by (relation "measure (\<lambda>(host, revision, msg, code, m). length code - pc m)")
     (auto dest: iteration_pc)

text \<open>
  The state in which \<^verbatim>\<open>execute\<close> enters the loop: \<^verbatim>\<open>gas_left = msg->gas\<close>, an empty
  stack and a memory of 1024 zero bytes with size 0.
\<close>

definition initial_machine :: "ExampleVM \<Rightarrow> 'h \<Rightarrow> evmc_message \<Rightarrow> 'h machine" where
  "initial_machine vm context msg =
     \<lparr>pc = 0, gas_left_local = gas msg, stack = [],
      memory = \<lparr>mem_size = 0, mem_data = replicate 1024 0\<rparr>,
      host_context = context, released = [], executed = 0,
      stdout = (if verbose vm > 0 then [''execution started'' @ [CHR 0x0A, CHR 0x0A]] else [])\<rparr>"

definition execute ::
  "ExampleVM \<Rightarrow> 'h evmc_host_interface \<Rightarrow> 'h \<Rightarrow> evmc_revision \<Rightarrow> evmc_message
     \<Rightarrow> uint8_t list \<Rightarrow> 'h step" where
  "execute vm host context revision msg code =
     loop host revision msg code (initial_machine vm context msg)"

section \<open>A host for the examples\<close>

text \<open>
  Modelled from the spec: a host with the four capabilities of the specification, for the
  examples. The unit tests of the example VM run it against \<^verbatim>\<open>evmc::MockedHost\<close> of
  \<^verbatim>\<open>evmc/mocked_host.hpp\<close>, which is not among the sources at hand. The host here does
  what the tests rely on: it keeps the storage of the accounts, a transaction context
  and a fixed result for every call, and records the messages of the calls.
\<close>

record MockedHost =
  storage :: "evmc_address \<Rightarrow> evmc_uint256be \<Rightarrow> evmc_uint256be"
  tx_context :: evmc_tx_context
  call_result :: evmc_result
  recorded_calls :: "evmc_message list"

definition mocked_host_interface :: "MockedHost evmc_host_interface" where
  "mocked_host_interface =
     \<lparr>get_storage = (\<lambda>h addr key. (storage h addr key, h)),
      set_storage = (\<lambda>h addr key v.
         h\<lparr>storage := (storage h)(addr := (storage h addr)(key := v))\<rparr>),
      get_tx_context = (\<lambda>h. (tx_context h, h)),
      call = (\<lambda>h msg. (call_result h, h\<lparr>recorded_calls := recorded_calls h @ [msg]\<rparr>))\<rparr>"

definition mocked_host :: MockedHost where
  "mocked_host =
     \<lparr>storage = (\<lambda>addr key. 0),
      tx_context = \<lparr>tx_origin = 0, block_number = 0, block_timestamp = 0, block_gas_limit = 0\<rparr>,
      call_result = \<lparr>status_code = EVMC_SUCCESS, gas_left = 0, output_data = [], release = False\<rparr>,
      recorded_calls = []\<rparr>"

text \<open>The message of the test fixture, with the gas and the input of one test.\<close>

definition test_msg :: "int \<Rightarrow> uint8_t list \<Rightarrow> evmc_message" where
  "test_msg g input =
     \<lparr>kind = EVMC_CALL, flags = 0, depth = 0, gas = g,
      destination = 0xd00000000000000000000000000000000000000d,
      sender = 0x5000000000000000000000000000000000000005,
      input_data = input, msg_value = 0\<rparr>"

text \<open>What a run shows to the outside: the result returned, and the state it ended in.\<close>

definition returned :: "'h step \<Rightarrow> evmc_result option" where
  "returned st = (case st of Return r m \<Rightarrow> Some r | _ \<Rightarrow> None)"

definition machine_of :: "'h step \<Rightarrow> 'h machine option" where
  "machine_of st = (case st of Continue m \<Rightarrow> Some m | Return r m \<Rightarrow> Some m | Undefined u \<Rightarrow> None)"

definition example_vm :: ExampleVM where
  "example_vm = \<lparr>verbose = 0\<rparr>"

text \<open>
  The bounds of the two arrays: the stack holds at most 1024 words and the buffer of the
  memory has 1024 bytes. Every state of a run is within them.
\<close>

definition within_capacity :: "'h machine \<Rightarrow> bool" where
  "within_capacity m \<longleftrightarrow> length (stack m) \<le> 1024 \<and> length (mem_data (memory m)) = 1024"

text \<open>
  The same step with another value in the gas counter: the state holds that value, and a
  result that reports the counter (one with the status \<open>EVMC_SUCCESS\<close> or \<open>EVMC_REVERT\<close>)
  reports it.
\<close>

fun regas :: "int \<Rightarrow> 'h step \<Rightarrow> 'h step" where
  "regas g (Continue m) = Continue (m\<lparr>gas_left_local := g\<rparr>)"
| "regas g (Return r m) =
     Return (if status_code r = EVMC_SUCCESS \<or> status_code r = EVMC_REVERT
             then r\<lparr>gas_left := g\<rparr> else r)
       (m\<lparr>gas_left_local := g\<rparr>)"
| "regas g (Undefined u) = Undefined u"

section \<open>Facts about the stack, the memory and the bytes of a word\<close>

lemma with_pop_Cons: "with_pop (x # s) k = k x s"
  by (simp add: with_pop_def pop_def)

lemma with_pop_Nil: "with_pop [] k = Undefined Read_Below_Stack"
  by (simp add: with_pop_def pop_def)

lemma with_push_room: "length s < 1024 \<Longrightarrow> with_push v s k = k (v # s)"
  by (simp add: with_push_def push_def)

lemma with_pop_Return:
  "with_pop s k = Return r m' \<Longrightarrow> (\<And>x s'. k x s' = Return r m' \<Longrightarrow> P) \<Longrightarrow> P"
  by (auto simp: with_pop_def split: option.splits)

lemma with_push_Return:
  "with_push v s k = Return r m' \<Longrightarrow> (\<And>s'. k s' = Return r m' \<Longrightarrow> P) \<Longrightarrow> P"
  by (auto simp: with_push_def split: option.splits)

lemma with_set_Return:
  "with_set mem i d n k = Return r m' \<Longrightarrow> (\<And>mem'. k mem' = Return r m' \<Longrightarrow> P) \<Longrightarrow> P"
  by (auto simp: with_set_def split: option.splits)

lemma unat_byte31: "unat (byte31 w) = unat w mod 256"
  by (simp add: byte31_def unsigned_ucast_eq take_bit_eq_mod)

lemma unat_uint256be_of_byte: "unat (uint256be_of_byte b) = unat b"
proof -
  have "unat b < 2 ^ 8"
    using unsigned_less [of b, where ?'a = nat] by simp
  then have "unat b < 2 ^ 256"
    by (rule less_le_trans) simp
  then show ?thesis
    by (simp add: uint256be_of_byte_def unsigned_ucast_eq take_bit_eq_mod)
qed

lemma uint256be_of_byte_flag:
  "uint256be_of_byte (if b then 1 else 0) = (if b then 1 else 0)"
  by (simp add: uint256be_of_byte_def)

lemma length_bytes_of_uint256be: "length (bytes_of_uint256be w) = 32"
  by (simp add: bytes_of_uint256be_def)

lemma with_set_in_bounds:
  "index + n \<le> length (mem_data mem) \<Longrightarrow> n \<le> length src \<Longrightarrow>
   with_set mem index src n k =
     k \<lparr>mem_size = max (mem_size mem) (index + n),
        mem_data = take index (mem_data mem) @ take n src @ drop (index + n) (mem_data mem)\<rparr>"
  by (simp add: with_set_def Memory_set_def Let_def max_def)

lemma status_make_result [simp]: "status_code (evmc_make_result st g out) = st"
  and gas_left_make_result [simp]: "gas_left (evmc_make_result st g out) = g"
  and output_make_result [simp]: "output_data (evmc_make_result st g out) = out"
  by (simp_all add: evmc_make_result_def)

lemma within_capacity_initial: "within_capacity (initial_machine vm ctx msg)"
  by (simp add: within_capacity_def initial_machine_def)

section \<open>Facts about single instructions\<close>

text \<open>MSTORE and CALL in a state within the bounds of the arrays.\<close>

lemma MSTORE_step:
  assumes cap: "within_capacity m"
    and st: "stack m = off # v # rest"
    and op: "code ! pc m = 0x52"
  shows "dispatch host revision msg code m =
           Continue (m\<lparr>stack := rest,
              memory := \<lparr>mem_size = max (mem_size (memory m)) (unat off mod 256 + 32),
                mem_data = take (unat off mod 256) (mem_data (memory m)) @ bytes_of_uint256be v
                  @ drop (unat off mod 256 + 32) (mem_data (memory m))\<rparr>\<rparr>)"
proof -
  have "unat off mod 256 + 32 \<le> length (mem_data (memory m))"
    using cap by (simp add: within_capacity_def)
  then show ?thesis
    using st op
    by (simp add: dispatch_def op_MSTORE_def with_pop_Cons Let_def unat_byte31
        with_set_in_bounds length_bytes_of_uint256be)
qed

lemma CALL_step:
  assumes cap: "within_capacity m"
    and st: "stack m = g # a # v # in_off # in_size # out_off # out_size # rest"
    and op: "code ! pc m = 0xf1"
    and res: "call host (host_context m) (make_call_msg (memory m) g a v in_off in_size) = (res, h)"
  shows "dispatch host revision msg code m =
           Continue (m\<lparr>stack := (if status_code res = EVMC_SUCCESS then 1 else 0) # rest,
              memory := \<lparr>mem_size = max (mem_size (memory m))
                  (unat out_off mod 256 + min (unat out_size mod 256) (length (output_data res))),
                mem_data = take (unat out_off mod 256) (mem_data (memory m))
                  @ take (min (unat out_size mod 256) (length (output_data res))) (output_data res)
                  @ drop (unat out_off mod 256
                          + min (unat out_size mod 256) (length (output_data res)))
                      (mem_data (memory m))\<rparr>,
              host_context := h,
              released := (if release res then released m @ [res] else released m)\<rparr>)"
proof -
  let ?n = "min (unat out_size mod 256) (length (output_data res))"
  have n: "(if length (output_data res) < unat out_size mod 256 then length (output_data res)
            else unat out_size mod 256) = ?n"
    by (simp add: min_def)
  have "unat out_size mod 256 < 256"
    by simp
  then have "?n \<le> 255"
    by linarith
  moreover have "unat out_off mod 256 < 256"
    by simp
  ultimately have b: "unat out_off mod 256 + ?n \<le> length (mem_data (memory m))"
    using cap by (simp add: within_capacity_def)
  have l: "?n \<le> length (output_data res)"
    by simp
  from st cap have room: "length rest < 1024"
    by (simp add: within_capacity_def)
  show ?thesis
    using st op res room
    by (simp add: dispatch_def op_CALL_def with_pop_Cons Let_def unat_byte31 with_push_room n
        with_set_in_bounds [OF b l] uint256be_of_byte_flag)
qed

text \<open>What a pass through the \<^verbatim>\<open>switch\<close> leaves alone, and what it can return.\<close>

lemma dispatch_Continue_keeps:
  "dispatch host revision msg code m = Continue m' \<Longrightarrow>
     gas_left_local m' = gas_left_local m \<and> executed m' = executed m"
  unfolding dispatch_def Let_def
  by (auto simp: op_defs Let_def split: if_splits prod.splits
      elim!: with_pop_Continue with_push_Continue with_set_Continue)

lemma dispatch_Return_cases:
  "dispatch host revision msg code m = Return r m' \<Longrightarrow>
     executed m' = executed m \<and> gas_left_local m' = gas_left_local m \<and>
     ((status_code r = EVMC_SUCCESS \<or> status_code r = EVMC_REVERT) \<and> gas_left r = gas_left_local m
      \<or> r = evmc_make_result EVMC_UNDEFINED_INSTRUCTION 0 [])"
  unfolding dispatch_def Let_def
  by (auto simp: op_defs Let_def evmc_make_result_def split: if_splits prod.splits
      elim!: with_pop_Return with_push_Return with_set_Return)

lemmas stack_memory_defs =
  with_pop_def pop_def with_push_def push_def with_set_def Memory_set_def

lemma dispatch_within_capacity:
  "within_capacity m \<Longrightarrow> dispatch host revision msg code m = Continue m' \<Longrightarrow>
     within_capacity m'"
  unfolding dispatch_def Let_def
  by (auto simp: op_defs Let_def within_capacity_def stack_memory_defs
      split: if_splits prod.splits list.splits option.splits)

lemma with_pop_Undefined:
  "with_pop s k = Undefined Copy_Out_Of_Bounds \<Longrightarrow>
     (\<And>x s'. k x s' = Undefined Copy_Out_Of_Bounds \<Longrightarrow> P) \<Longrightarrow> P"
  by (auto simp: with_pop_def split: option.splits)

lemma with_push_Undefined:
  "with_push v s k = Undefined Copy_Out_Of_Bounds \<Longrightarrow>
     (\<And>s'. k s' = Undefined Copy_Out_Of_Bounds \<Longrightarrow> P) \<Longrightarrow> P"
  by (auto simp: with_push_def split: option.splits)

lemma with_set_Undefined:
  "with_set mem i d n k = Undefined Copy_Out_Of_Bounds \<Longrightarrow>
     (\<not> (i + n \<le> length (mem_data mem) \<and> n \<le> length d) \<Longrightarrow> P) \<Longrightarrow>
     (\<And>mem'. k mem' = Undefined Copy_Out_Of_Bounds \<Longrightarrow> P) \<Longrightarrow> P"
  by (auto simp: with_set_def Memory_set_def Let_def split: option.splits if_splits)

lemma copy_bounds:
  "unat (byte31 x) + 32 \<le> 1024"
  "unat (byte31 x) + (if length out < unat (byte31 y) then length out else unat (byte31 y))
     \<le> 1024"
  "(if length out < unat (byte31 y) then length out else unat (byte31 y)) \<le> length out"
  "unat (byte31 x) + unat (byte31 y) \<le> 1024"
  "length out < unat (byte31 y) \<Longrightarrow> unat (byte31 x) + length out \<le> 1024"
proof -
  have x: "unat (byte31 x) < 256" and y: "unat (byte31 y) < 256"
    by (simp_all add: unat_byte31)
  from x show "unat (byte31 x) + 32 \<le> 1024"
    by linarith
  from x y show "unat (byte31 x)
      + (if length out < unat (byte31 y) then length out else unat (byte31 y)) \<le> 1024"
    by (cases "length out < unat (byte31 y)") simp_all
  show "(if length out < unat (byte31 y) then length out else unat (byte31 y)) \<le> length out"
    by simp
  from x y show "unat (byte31 x) + unat (byte31 y) \<le> 1024"
    by linarith
  from x y show "length out < unat (byte31 y) \<Longrightarrow> unat (byte31 x) + length out \<le> 1024"
    by linarith
qed

lemma dispatch_copy_in_bounds:
  assumes "within_capacity m"
  shows "dispatch host revision msg code m \<noteq> Undefined Copy_Out_Of_Bounds"
proof
  assume "dispatch host revision msg code m = Undefined Copy_Out_Of_Bounds"
  then show False
    using assms unfolding dispatch_def Let_def
    by (auto simp: op_defs Let_def within_capacity_def copy_bounds length_bytes_of_uint256be
        split: if_splits prod.splits
        elim!: with_pop_Undefined with_push_Undefined with_set_Undefined)
qed

text \<open>The message is read for its destination and its input; its gas is not read again.\<close>

lemma dispatch_msg_gas:
  "dispatch host revision (msg\<lparr>gas := g\<rparr>) code m = dispatch host revision msg code m"
  by (simp add: dispatch_def op_defs Let_def)

text \<open>A pass through the \<^verbatim>\<open>switch\<close> does the same for every value of the gas counter.\<close>

lemma op_regas:
  "op_STOP (m\<lparr>gas_left_local := g\<rparr>) = regas g (op_STOP m)"
  "op_ADD (m\<lparr>gas_left_local := g\<rparr>) = regas g (op_ADD m)"
  "op_ADDRESS msg (m\<lparr>gas_left_local := g\<rparr>) = regas g (op_ADDRESS msg m)"
  "op_CALLDATALOAD msg (m\<lparr>gas_left_local := g\<rparr>) = regas g (op_CALLDATALOAD msg m)"
  "op_NUMBER host (m\<lparr>gas_left_local := g\<rparr>) = regas g (op_NUMBER host m)"
  "op_MSTORE (m\<lparr>gas_left_local := g\<rparr>) = regas g (op_MSTORE m)"
  "op_SLOAD host msg (m\<lparr>gas_left_local := g\<rparr>) = regas g (op_SLOAD host msg m)"
  "op_SSTORE host msg (m\<lparr>gas_left_local := g\<rparr>) = regas g (op_SSTORE host msg m)"
  "op_MSIZE (m\<lparr>gas_left_local := g\<rparr>) = regas g (op_MSIZE m)"
  "op_PUSH1 code (m\<lparr>gas_left_local := g\<rparr>) = regas g (op_PUSH1 code m)"
  "op_DUP1 (m\<lparr>gas_left_local := g\<rparr>) = regas g (op_DUP1 m)"
  "op_RETURN (m\<lparr>gas_left_local := g\<rparr>) = regas g (op_RETURN m)"
  "op_REVERT revision (m\<lparr>gas_left_local := g\<rparr>) = regas g (op_REVERT revision m)"
  by (simp_all add: op_defs Let_def stack_memory_defs evmc_make_result_def
      split: prod.splits list.splits option.splits)

lemma op_CALL_regas:
  "op_CALL host (m\<lparr>gas_left_local := g\<rparr>) = regas g (op_CALL host m)"
  by (simp add: op_CALL_def Let_def stack_memory_defs
      split: prod.splits list.splits option.splits)

lemma dispatch_regas:
  "dispatch host revision msg code (m\<lparr>gas_left_local := g\<rparr>)
     = regas g (dispatch host revision msg code m)"
  by (simp add: dispatch_def Let_def op_regas op_CALL_regas evmc_make_result_def)

section \<open>Facts about the loop\<close>

lemma iteration_Continue:
  "iteration host revision msg code m = Continue m' \<Longrightarrow>
     0 < gas_left_local m \<and> gas_left_local m' = gas_left_local m - 1
     \<and> executed m' = executed m + 1"
  by (auto simp: iteration_def Let_def split: if_splits step.splits
      dest!: dispatch_Continue_keeps)

lemma iteration_Return:
  "iteration host revision msg code m = Return r m' \<Longrightarrow>
     gas_left_local m' = gas_left_local m - 1 \<and>
     (r = evmc_make_result EVMC_OUT_OF_GAS 0 [] \<and> gas_left_local m \<le> 0 \<and> executed m' = executed m
      \<or> 0 < gas_left_local m \<and> executed m' = executed m + 1 \<and>
        ((status_code r = EVMC_SUCCESS \<or> status_code r = EVMC_REVERT)
            \<and> gas_left r = gas_left_local m - 1
         \<or> r = evmc_make_result EVMC_UNDEFINED_INSTRUCTION 0 []))"
  by (auto simp: iteration_def Let_def split: if_splits step.splits
      dest!: dispatch_Return_cases)

lemma iteration_within_capacity:
  "within_capacity m \<Longrightarrow> iteration host revision msg code m = Continue m' \<Longrightarrow>
     within_capacity m'"
proof -
  assume cap: "within_capacity m" and it: "iteration host revision msg code m = Continue m'"
  let ?m1 = "m\<lparr>gas_left_local := gas_left_local m - 1, executed := executed m + 1\<rparr>"
  from cap have c1: "within_capacity ?m1"
    by (simp add: within_capacity_def)
  from it obtain m2 where d: "dispatch host revision msg code ?m1 = Continue m2"
    and m': "m' = m2\<lparr>pc := pc m2 + 1\<rparr>"
    by (auto simp: iteration_def Let_def split: if_splits step.splits)
  from dispatch_within_capacity [OF c1 d] m' show ?thesis
    by (simp add: within_capacity_def)
qed

lemma iteration_copy_in_bounds:
  "within_capacity m \<Longrightarrow> iteration host revision msg code m \<noteq> Undefined Copy_Out_Of_Bounds"
proof
  assume cap: "within_capacity m"
    and it: "iteration host revision msg code m = Undefined Copy_Out_Of_Bounds"
  let ?m1 = "m\<lparr>gas_left_local := gas_left_local m - 1, executed := executed m + 1\<rparr>"
  from cap have c1: "within_capacity ?m1"
    by (simp add: within_capacity_def)
  from it have "dispatch host revision msg code ?m1 = Undefined Copy_Out_Of_Bounds"
    by (auto simp: iteration_def Let_def split: if_splits step.splits)
  with dispatch_copy_in_bounds [OF c1] show False
    by simp
qed

lemma iteration_msg_gas:
  "iteration host revision (msg\<lparr>gas := g\<rparr>) code m = iteration host revision msg code m"
  unfolding iteration_def dispatch_msg_gas ..

lemma iteration_regas:
  assumes "0 < gas_left_local m" and "0 < g"
  shows "iteration host revision msg code (m\<lparr>gas_left_local := g\<rparr>)
           = regas (g - 1) (iteration host revision msg code m)"
proof -
  let ?m1 = "m\<lparr>gas_left_local := gas_left_local m - 1, executed := executed m + 1\<rparr>"
  have eq: "m\<lparr>gas_left_local := g - 1, executed := executed m + 1\<rparr>
              = ?m1\<lparr>gas_left_local := g - 1\<rparr>"
    by simp
  have d: "dispatch host revision msg code
             (m\<lparr>gas_left_local := g - 1, executed := executed m + 1\<rparr>)
        = regas (g - 1) (dispatch host revision msg code ?m1)"
    by (subst eq) (rule dispatch_regas)
  show ?thesis
    using assms
    by (cases "dispatch host revision msg code ?m1")
       (simp_all add: iteration_def Let_def d del: One_nat_def)
qed

text \<open>
  The proofs about the loop follow its recursion: either the loop is not entered, or the
  first pass continues, returns, or has no defined behaviour.
\<close>

lemma loop_cases [consumes 1, case_names Done Continue Return]:
  assumes "loop host revision msg code m = Return res mf"
    and "\<not> pc m < length code \<Longrightarrow> res = evmc_make_result EVMC_SUCCESS (gas_left_local m) []
          \<Longrightarrow> mf = m \<Longrightarrow> P"
    and "\<And>m'. pc m < length code \<Longrightarrow> iteration host revision msg code m = Continue m'
          \<Longrightarrow> loop host revision msg code m' = Return res mf \<Longrightarrow> P"
    and "pc m < length code \<Longrightarrow> iteration host revision msg code m = Return res mf \<Longrightarrow> P"
  shows P
proof (cases "pc m < length code")
  case False
  with assms(1) have "res = evmc_make_result EVMC_SUCCESS (gas_left_local m) []" "mf = m"
    by (subst (asm) loop.simps, simp)+
  with False assms(2) show ?thesis
    by blast
next
  case True
  show ?thesis
  proof (cases "iteration host revision msg code m")
    case (Continue m')
    with True assms(1) have "loop host revision msg code m' = Return res mf"
      by (subst (asm) loop.simps) simp
    with True Continue assms(3) show ?thesis
      by blast
  next
    case (Return r m')
    with True assms(1) have "r = res" "m' = mf"
      by (subst (asm) loop.simps, simp)+
    with True Return assms(4) show ?thesis
      by blast
  next
    case (Undefined u)
    with True assms(1) show ?thesis
      by (subst (asm) loop.simps) simp
  qed
qed

lemma loop_Return:
  "loop host revision msg code m = Return res mf \<Longrightarrow>
     executed m \<le> executed mf \<and>
     ((status_code res = EVMC_SUCCESS \<or> status_code res = EVMC_REVERT)
        \<and> gas_left res = gas_left_local m - (int (executed mf) - int (executed m))
      \<or> res = evmc_make_result EVMC_UNDEFINED_INSTRUCTION 0 []
      \<or> res = evmc_make_result EVMC_OUT_OF_GAS 0 [])"
proof (induction host revision msg code m rule: loop.induct)
  case (1 host revision msg code m)
  from "1.prems" show ?case
  proof (cases rule: loop_cases)
    case Done
    then show ?thesis
      by simp
  next
    case (Continue m')
    from "1.IH" [OF Continue] iteration_Continue [OF Continue(2)] show ?thesis
      by auto
  next
    case Return
    from iteration_Return [OF Return(2)] show ?thesis
      by auto
  qed
qed

lemma loop_gas_bounds:
  "loop host revision msg code m = Return res mf \<Longrightarrow> 0 \<le> gas_left_local m \<Longrightarrow>
     0 \<le> gas_left res \<and> gas_left res \<le> gas_left_local m"
proof (induction host revision msg code m rule: loop.induct)
  case (1 host revision msg code m)
  from "1.prems"(1) show ?case
  proof (cases rule: loop_cases)
    case Done
    with "1.prems" show ?thesis
      by simp
  next
    case (Continue m')
    from iteration_Continue [OF Continue(2)]
    have "0 \<le> gas_left_local m'" "gas_left_local m' \<le> gas_left_local m"
      by auto
    with "1.IH" [OF Continue] show ?thesis
      by auto
  next
    case Return
    from iteration_Return [OF Return(2)] "1.prems" show ?thesis
      by auto
  qed
qed

lemma loop_copy_in_bounds:
  "within_capacity m \<Longrightarrow> loop host revision msg code m \<noteq> Undefined Copy_Out_Of_Bounds"
proof (induction host revision msg code m rule: loop.induct)
  case (1 host revision msg code m)
  show ?case
  proof (cases "pc m < length code")
    case False
    then show ?thesis
      by (subst loop.simps) simp
  next
    case True
    show ?thesis
    proof (cases "iteration host revision msg code m")
      case (Continue m')
      from "1.IH" [OF True Continue iteration_within_capacity [OF "1.prems" Continue]]
      show ?thesis
        using True Continue by (subst loop.simps) simp
    next
      case (Return r m')
      with True show ?thesis
        by (subst loop.simps) simp
    next
      case (Undefined u)
      with iteration_copy_in_bounds [OF "1.prems", of host revision msg code] True
      show ?thesis
        by (subst loop.simps) simp
    qed
  qed
qed

lemma loop_msg_gas:
  "loop host revision (msg\<lparr>gas := g\<rparr>) code m = loop host revision msg code m"
proof (induction host revision msg code m rule: loop.induct)
  case (1 host revision msg code m)
  show ?case
  proof (cases "pc m < length code")
    case False
    then show ?thesis
      by (subst (1 2) loop.simps) simp
  next
    case True
    show ?thesis
    proof (cases "iteration host revision msg code m")
      case (Continue m')
      from "1.IH" [OF True Continue] True Continue show ?thesis
        by (subst (1 2) loop.simps) (simp add: iteration_msg_gas)
    next
      case (Return r m')
      with True show ?thesis
        by (subst (1 2) loop.simps) (simp add: iteration_msg_gas)
    next
      case (Undefined u)
      with True show ?thesis
        by (subst (1 2) loop.simps) (simp add: iteration_msg_gas)
    qed
  qed
qed

lemma loop_regas:
  "loop host revision msg code m = Return res mf \<Longrightarrow> status_code res \<noteq> EVMC_OUT_OF_GAS \<Longrightarrow>
   int (executed mf) - int (executed m) \<le> g \<Longrightarrow>
   loop host revision msg code (m\<lparr>gas_left_local := g\<rparr>)
     = regas (g - (int (executed mf) - int (executed m))) (Return res mf)"
proof (induction host revision msg code m arbitrary: g rule: loop.induct)
  case (1 host revision msg code m)
  from "1.prems"(1) show ?case
  proof (cases rule: loop_cases)
    case Done
    then show ?thesis
      by (subst loop.simps) (simp add: evmc_make_result_def)
  next
    case (Continue m')
    note c = iteration_Continue [OF Continue(2)]
    from loop_Return [OF Continue(3)] have "executed m' \<le> executed mf"
      by simp
    with c "1.prems" have g: "0 < g" and g': "int (executed mf) - int (executed m') \<le> g - 1"
      by auto
    from c g Continue have "iteration host revision msg code (m\<lparr>gas_left_local := g\<rparr>)
        = Continue (m'\<lparr>gas_left_local := g - 1\<rparr>)"
      by (simp add: iteration_regas)
    with Continue(1) have "loop host revision msg code (m\<lparr>gas_left_local := g\<rparr>)
        = loop host revision msg code (m'\<lparr>gas_left_local := g - 1\<rparr>)"
      by (subst loop.simps) simp
    also have "\<dots> = regas (g - 1 - (int (executed mf) - int (executed m'))) (Return res mf)"
      by (rule "1.IH" [OF Continue "1.prems"(2) g'])
    also have "g - 1 - (int (executed mf) - int (executed m'))
        = g - (int (executed mf) - int (executed m))"
      using c by simp
    finally show ?thesis .
  next
    case Return
    from iteration_Return [OF Return(2)] "1.prems"
    have c: "0 < gas_left_local m" "executed mf = executed m + 1"
      by auto
    with "1.prems" have g: "0 < g"
      by simp
    from c g Return have "iteration host revision msg code (m\<lparr>gas_left_local := g\<rparr>)
        = regas (g - 1) (Return res mf)"
      by (simp add: iteration_regas)
    with Return(1) have "loop host revision msg code (m\<lparr>gas_left_local := g\<rparr>)
        = regas (g - 1) (Return res mf)"
      by (subst loop.simps) simp
    with c show ?thesis
      by simp
  qed
qed

lemma loop_out_of_gas:
  "loop host revision msg code m = Return res mf \<Longrightarrow> status_code res \<noteq> EVMC_OUT_OF_GAS \<Longrightarrow>
   0 \<le> g \<Longrightarrow> g < int (executed mf) - int (executed m) \<Longrightarrow>
   \<exists>mo. loop host revision msg code (m\<lparr>gas_left_local := g\<rparr>)
     = Return (evmc_make_result EVMC_OUT_OF_GAS 0 []) mo"
proof (induction host revision msg code m arbitrary: g rule: loop.induct)
  case (1 host revision msg code m)
  from "1.prems"(1) show ?case
  proof (cases rule: loop_cases)
    case Done
    with "1.prems" show ?thesis
      by simp
  next
    case (Continue m')
    show ?thesis
    proof (cases "g = 0")
      case True
      with Continue(1) show ?thesis
        by (subst loop.simps) (simp add: iteration_def)
    next
      case False
      with "1.prems" have g: "0 < g"
        by simp
      note c = iteration_Continue [OF Continue(2)]
      with "1.prems" g have g': "0 \<le> g - 1" "g - 1 < int (executed mf) - int (executed m')"
        by auto
      from c g Continue have "iteration host revision msg code (m\<lparr>gas_left_local := g\<rparr>)
          = Continue (m'\<lparr>gas_left_local := g - 1\<rparr>)"
        by (simp add: iteration_regas)
      with Continue(1) have "loop host revision msg code (m\<lparr>gas_left_local := g\<rparr>)
          = loop host revision msg code (m'\<lparr>gas_left_local := g - 1\<rparr>)"
        by (subst loop.simps) simp
      with "1.IH" [OF Continue "1.prems"(2) g'] show ?thesis
        by simp
    qed
  next
    case Return
    from iteration_Return [OF Return(2)] "1.prems"
    have "executed mf = executed m + 1"
      by auto
    with "1.prems" have "g = 0"
      by simp
    with Return(1) show ?thesis
      by (subst loop.simps) (simp add: iteration_def)
  qed
qed

section \<open>The unit tests of the example VM\<close>

text \<open>
  The tests of \<^verbatim>\<open>test/unittests/example_vm_test.cpp\<close>, run on the model: each lemma gives
  the result the test expects from \<^verbatim>\<open>execute\<close>, and what the test expects of the host
  afterwards.
\<close>

lemma test_empty_code:
  "returned (execute example_vm mocked_host_interface mocked_host EVMC_BERLIN
      (test_msg 999 []) [])
     = Some \<lparr>status_code = EVMC_SUCCESS, gas_left = 999, output_data = [], release = False\<rparr>"
  by code_simp

lemma test_return_address:
  "returned (execute example_vm mocked_host_interface mocked_host EVMC_BERLIN
      (test_msg 6 []) [0x30, 0x60, 0x00, 0x52, 0x60, 0x14, 0x60, 0x0c, 0xf3])
     = Some \<lparr>status_code = EVMC_SUCCESS, gas_left = 0,
        output_data = [0xd0, 0, 0, 0, 0, 0, 0, 0, 0, 0, 0, 0, 0, 0, 0, 0, 0, 0, 0, 0x0d],
        release = True\<rparr>"
  by code_simp

lemma test_counter_in_storage:
  "returned (execute example_vm mocked_host_interface
      (mocked_host\<lparr>storage := (storage mocked_host)
         (0xd00000000000000000000000000000000000000d := (\<lambda>key. 0)(0 := 0xbb))\<rparr>) EVMC_BERLIN
      (test_msg 10 []) [0x60, 0x01, 0x60, 0x00, 0x54, 0x01, 0x60, 0x00, 0x55, 0x00])
     = Some \<lparr>status_code = EVMC_SUCCESS, gas_left = 3, output_data = [], release = False\<rparr>
   \<and> map_option (\<lambda>m. storage (host_context m) 0xd00000000000000000000000000000000000000d 0)
       (machine_of (execute example_vm mocked_host_interface
          (mocked_host\<lparr>storage := (storage mocked_host)
         (0xd00000000000000000000000000000000000000d := (\<lambda>key. 0)(0 := 0xbb))\<rparr>) EVMC_BERLIN
          (test_msg 10 []) [0x60, 0x01, 0x60, 0x00, 0x54, 0x01, 0x60, 0x00, 0x55, 0x00]))
     = Some 0xbc"
  by code_simp

lemma test_revert_block_number:
  "returned (execute example_vm mocked_host_interface
      (mocked_host\<lparr>tx_context := (tx_context mocked_host)\<lparr>block_number := 0xb4\<rparr>\<rparr>)
      EVMC_BERLIN (test_msg 7 []) [0x43, 0x60, 0x00, 0x52, 0x60, 0x20, 0x60, 0x00, 0xfd])
     = Some \<lparr>status_code = EVMC_REVERT, gas_left = 1,
        output_data = replicate 31 0 @ [0xb4], release = True\<rparr>"
  by code_simp

lemma test_revert_undefined:
  "returned (execute example_vm mocked_host_interface mocked_host EVMC_FRONTIER
      (test_msg 100 []) [0xfd])
     = Some \<lparr>status_code = EVMC_UNDEFINED_INSTRUCTION, gas_left = 0, output_data = [],
        release = False\<rparr>"
  by code_simp

lemma test_call:
  "returned (execute example_vm mocked_host_interface
      (mocked_host\<lparr>call_result := (call_result mocked_host)\<lparr>output_data := [0xaa, 0xbb, 0xcc]\<rparr>\<rparr>)
      EVMC_BERLIN (test_msg 100 [])
      [0x60, 0x03, 0x80, 0x80, 0x80, 0x80, 0x80, 0x80, 0xf1, 0x59, 0x60, 0x00, 0xf3])
     = Some \<lparr>status_code = EVMC_SUCCESS, gas_left = 89,
        output_data = [0, 0, 0, 0xaa, 0xbb, 0xcc], release = True\<rparr>
   \<and> map_option (\<lambda>m. recorded_calls (host_context m))
       (machine_of (execute example_vm mocked_host_interface
          (mocked_host\<lparr>call_result := (call_result mocked_host)\<lparr>output_data := [0xaa, 0xbb, 0xcc]\<rparr>\<rparr>)
          EVMC_BERLIN (test_msg 100 [])
          [0x60, 0x03, 0x80, 0x80, 0x80, 0x80, 0x80, 0x80, 0xf1, 0x59, 0x60, 0x00, 0xf3]))
     = Some [\<lparr>kind = EVMC_CALL, flags = 0, depth = 0, gas = 3, destination = 3, sender = 0,
         input_data = [0, 0, 0], msg_value = 3\<rparr>]"
  by code_simp

lemma execute_status:
  "map_option status_code (returned (execute vm host ctx revision msg code))
     \<in> {None, Some EVMC_SUCCESS, Some EVMC_REVERT, Some EVMC_UNDEFINED_INSTRUCTION,
         Some EVMC_OUT_OF_GAS}"
proof (cases "execute vm host ctx revision msg code")
  case (Return r mf)
  then have "loop host revision msg code (initial_machine vm ctx msg) = Return r mf"
    by (simp add: execute_def)
  from loop_Return [OF this] Return show ?thesis
    by (auto simp: returned_def)
qed (simp_all add: returned_def)

section \<open>Empty code\<close>

text \<open>
  Claim C7. With an empty code buffer the loop is not entered: for every instance, host,
  revision and message, \<^verbatim>\<open>execute\<close> returns the status \<open>EVMC_SUCCESS\<close>, the gas of the
  message as \<open>gas_left\<close> and an output of length 0, in the state it started in.
\<close>

theorem execute_empty_code:
  "execute vm host ctx revision msg [] =
     Return \<lparr>status_code = EVMC_SUCCESS, gas_left = gas msg, output_data = [], release = False\<rparr>
       (initial_machine vm ctx msg)"
  by (simp add: execute_def initial_machine_def evmc_make_result_def)

section \<open>ADD\<close>

text \<open>
  Claim C1, as the specification states it, asks for the sum of the two operands modulo
  \<open>2 ^ 256\<close>. The program PUSH1 0xff, PUSH1 0x01, ADD, STOP ends with the stack holding
  the one word 0, while \<open>0xff + 0x01\<close> is \<open>0x100\<close> in 256-bit arithmetic: the claim does
  not hold for the code.
\<close>

theorem ADD_full_width_counterexample:
  "map_option stack (machine_of
      (execute example_vm mocked_host_interface mocked_host EVMC_BERLIN (test_msg 10 [])
         [0x60, 0xff, 0x60, 0x01, 0x01, 0x00])) = Some [0]
   \<and> (0xff + 0x01 :: evmc_uint256be) = 0x100"
  by code_simp

text \<open>
  Claim C1, amended. ADD works on \<^verbatim>\<open>uint8_t\<close>: with the operands \<open>a\<close> and \<open>b\<close> on top of
  a stack within its capacity, ADD replaces them by a word \<open>r\<close> whose value is
  \<open>(a + b) mod 256\<close>, the sum of the lowest bytes of the operands cut to one byte.
\<close>

theorem ADD_adds_low_bytes:
  "stack m = a # b # rest \<Longrightarrow> length (stack m) \<le> 1024 \<Longrightarrow> code ! pc m = 0x01 \<Longrightarrow>
   \<exists>r. dispatch host revision msg code m = Continue (m\<lparr>stack := r # rest\<rparr>)
     \<and> unat r = (unat a + unat b) mod 256"
proof -
  assume st: "stack m = a # b # rest"
    and len: "length (stack m) \<le> 1024"
    and op: "code ! pc m = 0x01"
  let ?r = "uint256be_of_byte (byte31 a + byte31 b)"
  from st len have room: "length rest < 1024"
    by simp
  have "dispatch host revision msg code m = Continue (m\<lparr>stack := ?r # rest\<rparr>)"
    using st room op by (simp add: dispatch_def op_ADD_def with_pop_Cons with_push_room Let_def)
  moreover have "unat ?r = (unat a + unat b) mod 256"
    by (simp add: unat_uint256be_of_byte unat_word_ariths unat_byte31 mod_add_eq)
  ultimately show ?thesis
    by blast
qed

theorem ADD_adds_low_bytes_witness:
  "\<exists>r. dispatch mocked_host_interface EVMC_BERLIN (test_msg 10 []) [0x01]
          ((initial_machine example_vm mocked_host (test_msg 10 []))\<lparr>stack := [0xff, 0x01]\<rparr>)
        = Continue ((initial_machine example_vm mocked_host (test_msg 10 []))\<lparr>stack := [r]\<rparr>)
      \<and> unat r = (unat (0xff :: evmc_uint256be) + unat (0x01 :: evmc_uint256be)) mod 256"
  using ADD_adds_low_bytes
    [of "(initial_machine example_vm mocked_host (test_msg 10 []))\<lparr>stack := [0xff, 0x01]\<rparr>"
        "0xff" "0x01" "[]" "[0x01]" mocked_host_interface EVMC_BERLIN "test_msg 10 []"]
  by (simp add: initial_machine_def)

section \<open>Popping from the empty stack\<close>

text \<open>
  Claim C2, as the specification states it, asks for a halt with a stack-underflow error
  when an instruction pops from the empty stack. The two programs that consist of the one
  instruction ADD, and of the one instruction RETURN, run with enough gas, pop from the
  empty stack. No result with the status \<open>EVMC_STACK_UNDERFLOW\<close> comes back from either,
  and the pop is not prevented: \<^verbatim>\<open>Stack::pop\<close> finds no item within the bound of the
  stack and reads outside it.
\<close>

theorem pop_empty_stack_counterexample:
  "map_option status_code (returned (execute example_vm mocked_host_interface mocked_host
      EVMC_BERLIN (test_msg 100 []) [0x01])) \<noteq> Some EVMC_STACK_UNDERFLOW
   \<and> map_option status_code (returned (execute example_vm mocked_host_interface mocked_host
      EVMC_BERLIN (test_msg 100 []) [0xf3])) \<noteq> Some EVMC_STACK_UNDERFLOW
   \<and> pop (stack (initial_machine example_vm mocked_host (test_msg 100 []))) = None"
  by (simp add: execute_def initial_machine_def iteration_def dispatch_def op_ADD_def
      op_RETURN_def with_pop_Nil test_msg_def returned_def pop_def)

text \<open>
  Claim C2, amended. The example VM has no stack-underflow error. A pass through the
  \<^verbatim>\<open>switch\<close> that returns a result returns \<open>EVMC_SUCCESS\<close>, \<open>EVMC_REVERT\<close> or
  \<open>EVMC_UNDEFINED_INSTRUCTION\<close>, whatever the stack holds and so whatever a pop has
  delivered, and no run of \<^verbatim>\<open>execute\<close> returns \<open>EVMC_STACK_UNDERFLOW\<close>. The stack bounds
  are not checked: in a state with an empty stack, the first pop of ADD, CALLDATALOAD,
  MSTORE, SLOAD, SSTORE, DUP1, CALL and RETURN, and of REVERT from the revision Byzantium
  on, is a read of the slot before the stack array, outside the logical bound of the
  stack (\<open>Read_Below_Stack\<close>); C++ leaves open what such a read delivers, and nothing is
  said here about the run after it. REVERT under an earlier revision does not pop and
  returns \<open>EVMC_UNDEFINED_INSTRUCTION\<close>.
\<close>

theorem pop_empty_stack_unchecked:
  "(dispatch host revision msg code m = Return r m'
    \<longrightarrow> status_code r = EVMC_SUCCESS \<or> status_code r = EVMC_REVERT
        \<or> status_code r = EVMC_UNDEFINED_INSTRUCTION)
   \<and> map_option status_code (returned (execute vm host ctx revision msg code))
        \<noteq> Some EVMC_STACK_UNDERFLOW
   \<and> (stack m = [] \<and>
        (code ! pc m \<in> {0x01, 0x35, 0x52, 0x54, 0x55, 0x80, 0xf1, 0xf3}
         \<or> code ! pc m = 0xfd \<and> revision_number EVMC_BYZANTIUM \<le> revision_number revision)
    \<longrightarrow> pop (stack m) = None
        \<and> dispatch host revision msg code m = Undefined Read_Below_Stack)
   \<and> (stack m = [] \<and> code ! pc m = 0xfd
        \<and> revision_number revision < revision_number EVMC_BYZANTIUM
    \<longrightarrow> dispatch host revision msg code m =
          Return (evmc_make_result EVMC_UNDEFINED_INSTRUCTION 0 []) m)"
proof -
  have ret: "dispatch host revision msg code m = Return r m'
      \<longrightarrow> status_code r = EVMC_SUCCESS \<or> status_code r = EVMC_REVERT
        \<or> status_code r = EVMC_UNDEFINED_INSTRUCTION"
    using dispatch_Return_cases [of host revision msg code m r m'] by auto
  have run: "map_option status_code (returned (execute vm host ctx revision msg code))
        \<noteq> Some EVMC_STACK_UNDERFLOW"
    using execute_status [of vm host ctx revision msg code] by auto
  have below: "stack m = [] \<and>
        (code ! pc m \<in> {0x01, 0x35, 0x52, 0x54, 0x55, 0x80, 0xf1, 0xf3}
         \<or> code ! pc m = 0xfd \<and> revision_number EVMC_BYZANTIUM \<le> revision_number revision)
    \<longrightarrow> pop (stack m) = None
        \<and> dispatch host revision msg code m = Undefined Read_Below_Stack"
    by (auto simp: dispatch_def op_defs with_pop_Nil pop_def)
  have gate: "stack m = [] \<and> code ! pc m = 0xfd
        \<and> revision_number revision < revision_number EVMC_BYZANTIUM
    \<longrightarrow> dispatch host revision msg code m =
          Return (evmc_make_result EVMC_UNDEFINED_INSTRUCTION 0 []) m"
    by (auto simp: dispatch_def op_defs)
  from ret run below gate show ?thesis
    by (intro conjI)
qed

theorem pop_empty_stack_unchecked_witness:
  "dispatch mocked_host_interface EVMC_BERLIN (test_msg 100 []) [0xf3]
     (initial_machine example_vm mocked_host (test_msg 100 [])\<lparr>stack := [0, 2]\<rparr>)
     = Return (evmc_make_result EVMC_SUCCESS 100 (replicate 2 0))
         (initial_machine example_vm mocked_host (test_msg 100 [])\<lparr>stack := []\<rparr>)
   \<and> status_code (evmc_make_result EVMC_SUCCESS 100 (replicate 2 0)) = EVMC_SUCCESS
   \<and> dispatch mocked_host_interface EVMC_BERLIN (test_msg 100 []) [0x80]
     (initial_machine example_vm mocked_host (test_msg 100 [])) = Undefined Read_Below_Stack
   \<and> dispatch mocked_host_interface EVMC_FRONTIER (test_msg 100 []) [0xfd]
     (initial_machine example_vm mocked_host (test_msg 100 []))
     = Return (evmc_make_result EVMC_UNDEFINED_INSTRUCTION 0 [])
         (initial_machine example_vm mocked_host (test_msg 100 []))"
proof -
  let ?m = "initial_machine example_vm mocked_host (test_msg 100 [])"
  let ?r = "evmc_make_result EVMC_SUCCESS 100 (replicate 2 0)"
  have d: "dispatch mocked_host_interface EVMC_BERLIN (test_msg 100 []) [0xf3]
      (?m\<lparr>stack := [0, 2]\<rparr>) = Return ?r (?m\<lparr>stack := []\<rparr>)"
    by (simp add: dispatch_def op_RETURN_def with_pop_Cons initial_machine_def test_msg_def
        memory_slice_def byte31_def)
  note t = pop_empty_stack_unchecked [where host = mocked_host_interface
      and msg = "test_msg 100 []" and vm = example_vm and ctx = mocked_host]
  from t [where m = "?m\<lparr>stack := [0, 2]\<rparr>" and code = "[0xf3]" and revision = EVMC_BERLIN
      and r = ?r and m' = "?m\<lparr>stack := []\<rparr>"] d
  have 1: "status_code ?r = EVMC_SUCCESS"
    by simp
  from t [where m = ?m and code = "[0x80]" and revision = EVMC_BERLIN and r = ?r and m' = ?m]
  have 2: "dispatch mocked_host_interface EVMC_BERLIN (test_msg 100 []) [0x80] ?m
      = Undefined Read_Below_Stack"
    by (simp add: initial_machine_def)
  from t [where m = ?m and code = "[0xfd]" and revision = EVMC_FRONTIER and r = ?r and m' = ?m]
  have 3: "dispatch mocked_host_interface EVMC_FRONTIER (test_msg 100 []) [0xfd] ?m
      = Return (evmc_make_result EVMC_UNDEFINED_INSTRUCTION 0 []) ?m"
    by (simp add: initial_machine_def)
  from d 1 2 3 show ?thesis
    by (intro conjI)
qed

section \<open>Writes to the memory\<close>

text \<open>
  Claim C3, as the specification states it, asks for a failure with a memory-bounds
  status when the offset plus the length of a write overflows or leaves the memory. The
  program PUSH1 0xaa, PUSH1 0, CALLDATALOAD, MSTORE, PUSH1 32, PUSH1 0xff, RETURN, run on
  an input of 32 bytes 0xff, stores at the offset \<open>2 ^ 256 - 1\<close>: the stack before MSTORE
  holds that offset and the value 0xaa. The run does not fail: MSTORE writes at the
  offset 255 and the program returns the 32 bytes from there with the status
  \<open>EVMC_SUCCESS\<close>.
\<close>

theorem memory_bounds_counterexample:
  "returned (execute example_vm mocked_host_interface mocked_host EVMC_BERLIN
      (test_msg 100 (replicate 32 0xff))
      [0x60, 0xaa, 0x60, 0x00, 0x35, 0x52, 0x60, 0x20, 0x60, 0xff, 0xf3])
     = Some \<lparr>status_code = EVMC_SUCCESS, gas_left = 93,
             output_data = replicate 31 0 @ [0xaa], release = True\<rparr>
   \<and> map_option stack (machine_of (execute example_vm mocked_host_interface mocked_host
        EVMC_BERLIN (test_msg 100 (replicate 32 0xff)) [0x60, 0xaa, 0x60, 0x00, 0x35]))
     = Some [2 ^ 256 - 1, 0xaa]"
  by code_simp

text \<open>
  Claim C3, amended. The memory bounds are not checked, and no write fails. MSTORE takes
  its offset from the lowest byte of the operand, and the copy of the output of CALL takes
  its offset and its length from the lowest bytes of the operands, the length capped by
  the length of the output: with \<open>o\<close> the offset operand reduced modulo 256 the write
  covers \<open>[o, o + 32)\<close>, or \<open>[o, o + n)\<close> with \<open>n \<le> 255\<close>, inside the buffer of 1024 bytes.
  An operand of 256 or more is reduced, not rejected. No run of \<^verbatim>\<open>execute\<close> copies
  outside the buffer, and none returns the status \<open>EVMC_INVALID_MEMORY_ACCESS\<close>.
\<close>

theorem memory_writes_in_bounds:
  "(within_capacity m \<and> stack m = off # v # rest \<and> code ! pc m = 0x52
    \<longrightarrow> dispatch host revision msg code m =
          Continue (m\<lparr>stack := rest,
             memory := \<lparr>mem_size = max (mem_size (memory m)) (unat off mod 256 + 32),
               mem_data = take (unat off mod 256) (mem_data (memory m)) @ bytes_of_uint256be v
                 @ drop (unat off mod 256 + 32) (mem_data (memory m))\<rparr>\<rparr>)
        \<and> unat off mod 256 + 32 \<le> 1024)
   \<and> (within_capacity m
        \<and> stack m = g # a # w # in_off # in_size # out_off # out_size # rest
        \<and> code ! pc m = 0xf1
        \<and> call host (host_context m) (make_call_msg (memory m) g a w in_off in_size) = (res, h)
        \<and> n = min (unat out_size mod 256) (length (output_data res))
    \<longrightarrow> (\<exists>m'. dispatch host revision msg code m = Continue m'
           \<and> mem_data (memory m') = take (unat out_off mod 256) (mem_data (memory m))
                 @ take n (output_data res)
                 @ drop (unat out_off mod 256 + n) (mem_data (memory m)))
        \<and> unat out_off mod 256 + n \<le> 1024)
   \<and> execute vm host ctx revision msg code \<noteq> Undefined Copy_Out_Of_Bounds
   \<and> map_option status_code (returned (execute vm host ctx revision msg code))
        \<noteq> Some EVMC_INVALID_MEMORY_ACCESS"
proof -
  have mstore: "unat off mod 256 + 32 \<le> 1024"
    by (rule order_trans [of _ "256 + 32"]) simp_all
  have "unat out_size mod 256 < 256" "unat out_off mod 256 < 256"
    by simp_all
  then have call: "unat out_off mod 256 + min (unat out_size mod 256) (length (output_data res))
      \<le> 1024"
    by linarith
  have copy: "execute vm host ctx revision msg code \<noteq> Undefined Copy_Out_Of_Bounds"
    unfolding execute_def by (rule loop_copy_in_bounds) (rule within_capacity_initial)
  have status: "map_option status_code (returned (execute vm host ctx revision msg code))
      \<noteq> Some EVMC_INVALID_MEMORY_ACCESS"
    using execute_status [of vm host ctx revision msg code] by auto
  show ?thesis
    using mstore call copy status
    by (auto simp: MSTORE_step CALL_step)
qed

theorem memory_writes_in_bounds_witness:
  "dispatch mocked_host_interface EVMC_BERLIN (test_msg 100 []) [0x52]
     ((initial_machine example_vm mocked_host (test_msg 100 []))\<lparr>stack := [2 ^ 256 - 1, 0xaa]\<rparr>)
     = Continue ((initial_machine example_vm mocked_host (test_msg 100 []))
         \<lparr>stack := [],
          memory := \<lparr>mem_size = 287,
            mem_data = replicate 255 0 @ bytes_of_uint256be 0xaa @ replicate 737 0\<rparr>\<rparr>)
   \<and> (\<exists>m'. dispatch mocked_host_interface EVMC_BERLIN (test_msg 100 []) [0xf1]
         ((initial_machine example_vm
             (mocked_host\<lparr>call_result := \<lparr>status_code = EVMC_SUCCESS, gas_left = 0,
                output_data = [0xaa, 0xbb, 0xcc], release = True\<rparr>\<rparr>) (test_msg 100 []))
            \<lparr>stack := [0, 0, 0, 0, 0, 2 ^ 256 - 1, 2 ^ 256 - 1]\<rparr>) = Continue m'
       \<and> mem_data (memory m') = replicate 255 0 @ [0xaa, 0xbb, 0xcc] @ replicate 766 0)"
proof -
  let ?m = "(initial_machine example_vm mocked_host (test_msg 100 []))
      \<lparr>stack := [2 ^ 256 - 1, 0xaa]\<rparr>"
  let ?h = "mocked_host\<lparr>call_result := \<lparr>status_code = EVMC_SUCCESS, gas_left = 0,
      output_data = [0xaa, 0xbb, 0xcc], release = True\<rparr>\<rparr>"
  let ?m2 = "(initial_machine example_vm ?h (test_msg 100 []))
      \<lparr>stack := [0, 0, 0, 0, 0, 2 ^ 256 - 1, 2 ^ 256 - 1]\<rparr>"
  have low: "unat (2 ^ 256 - 1 :: evmc_uint256be) mod 256 = 255"
    by simp
  have c: "call mocked_host_interface (host_context ?m2)
      (make_call_msg (memory ?m2) 0 0 0 0 0)
      = (call_result ?h, ?h\<lparr>recorded_calls := [make_call_msg (memory ?m2) 0 0 0 0 0]\<rparr>)"
    by (simp add: mocked_host_interface_def initial_machine_def mocked_host_def)
  have 1: "dispatch mocked_host_interface EVMC_BERLIN (test_msg 100 []) [0x52] ?m
     = Continue ((initial_machine example_vm mocked_host (test_msg 100 []))
         \<lparr>stack := [],
          memory := \<lparr>mem_size = 287,
            mem_data = replicate 255 0 @ bytes_of_uint256be 0xaa @ replicate 737 0\<rparr>\<rparr>)"
    using memory_writes_in_bounds
      [where m = "?m" and off = "2 ^ 256 - 1" and v = "0xaa" and rest = "[]"
         and code = "[0x52]" and host = mocked_host_interface and revision = EVMC_BERLIN
         and msg = "test_msg 100 []"]
    by (simp add: within_capacity_def initial_machine_def low)
  have 2: "\<exists>m'. dispatch mocked_host_interface EVMC_BERLIN (test_msg 100 []) [0xf1] ?m2
         = Continue m'
       \<and> mem_data (memory m') = replicate 255 0 @ [0xaa, 0xbb, 0xcc] @ replicate 766 0"
    using memory_writes_in_bounds
      [where m = "?m2" and code = "[0xf1]" and g = 0 and a = 0 and w = 0 and in_off = 0
         and in_size = 0 and out_off = "2 ^ 256 - 1" and out_size = "2 ^ 256 - 1"
         and rest = "[]" and host = mocked_host_interface and res = "call_result ?h"
         and h = "?h\<lparr>recorded_calls := [make_call_msg (memory ?m2) 0 0 0 0 0]\<rparr>"
         and n = 3 and revision = EVMC_BERLIN and msg = "test_msg 100 []"] c
    by (simp add: within_capacity_def initial_machine_def low)
  from 1 2 show ?thesis
    by blast
qed

section \<open>The gas that is left\<close>

text \<open>
  Claim C4, as the specification states it, bounds \<open>gas_left\<close> by 0 and the initial gas
  for every execution, and lets \<open>gas_left\<close> after a failure reflect what was charged up
  to the failing step. With 100 gas and the revision Frontier, the program that consists
  of REVERT fails in its first instruction, after a charge of 1, and returns \<open>gas_left\<close>
  0, not 99: a failure gives up all the gas. And a message with the gas \<open>-1\<close> and empty
  code returns \<open>gas_left\<close> \<open>-1\<close>, a negative value.
\<close>

theorem gas_left_counterexample:
  "returned (execute example_vm mocked_host_interface mocked_host EVMC_FRONTIER
      (test_msg 100 []) [0xfd])
     = Some \<lparr>status_code = EVMC_UNDEFINED_INSTRUCTION, gas_left = 0, output_data = [],
             release = False\<rparr>
   \<and> map_option executed (machine_of (execute example_vm mocked_host_interface mocked_host
        EVMC_FRONTIER (test_msg 100 []) [0xfd])) = Some 1
   \<and> returned (execute example_vm mocked_host_interface mocked_host EVMC_BERLIN
        (test_msg (- 1) []) [])
     = Some \<lparr>status_code = EVMC_SUCCESS, gas_left = - 1, output_data = [], release = False\<rparr>"
  by code_simp

text \<open>
  Claim C4, amended. For every execution that starts with a gas that is not negative and
  returns a result, \<open>gas_left\<close> is at least 0 and at most the initial gas. A result with
  a status other than \<open>EVMC_SUCCESS\<close> and \<open>EVMC_REVERT\<close> has the status
  \<open>EVMC_OUT_OF_GAS\<close> or \<open>EVMC_UNDEFINED_INSTRUCTION\<close>, \<open>gas_left\<close> 0 and no output,
  whatever was charged before. A result returned in a pass through the loop body is the
  result of the loop: the loop stops there.
\<close>

theorem gas_left_bounds:
  "(0 \<le> gas msg \<and> execute vm host ctx revision msg code = Return r mf
    \<longrightarrow> 0 \<le> gas_left r \<and> gas_left r \<le> gas msg)
   \<and> (execute vm host ctx revision msg code = Return r mf
        \<and> status_code r \<noteq> EVMC_SUCCESS \<and> status_code r \<noteq> EVMC_REVERT
    \<longrightarrow> (status_code r = EVMC_OUT_OF_GAS \<or> status_code r = EVMC_UNDEFINED_INSTRUCTION)
        \<and> gas_left r = 0 \<and> output_data r = [])
   \<and> (pc m < length code \<and> iteration host revision msg code m = Return r mf
    \<longrightarrow> loop host revision msg code m = Return r mf)"
proof (intro conjI impI)
  assume a: "0 \<le> gas msg \<and> execute vm host ctx revision msg code = Return r mf"
  then have "loop host revision msg code (initial_machine vm ctx msg) = Return r mf"
    and "0 \<le> gas_left_local (initial_machine vm ctx msg)"
    by (simp_all add: execute_def initial_machine_def)
  from loop_gas_bounds [OF this] show "0 \<le> gas_left r" and "gas_left r \<le> gas msg"
    by (simp_all add: initial_machine_def)
next
  assume a: "execute vm host ctx revision msg code = Return r mf
      \<and> status_code r \<noteq> EVMC_SUCCESS \<and> status_code r \<noteq> EVMC_REVERT"
  then have "loop host revision msg code (initial_machine vm ctx msg) = Return r mf"
    by (simp add: execute_def)
  from loop_Return [OF this] a
  have "r = evmc_make_result EVMC_UNDEFINED_INSTRUCTION 0 []
      \<or> r = evmc_make_result EVMC_OUT_OF_GAS 0 []"
    by auto
  then show "status_code r = EVMC_OUT_OF_GAS \<or> status_code r = EVMC_UNDEFINED_INSTRUCTION"
    and "gas_left r = 0" and "output_data r = []"
    by auto
next
  assume "pc m < length code \<and> iteration host revision msg code m = Return r mf"
  then show "loop host revision msg code m = Return r mf"
    by (subst loop.simps) simp
qed

theorem gas_left_bounds_witness:
  "\<exists>r mf. execute example_vm mocked_host_interface mocked_host EVMC_FRONTIER
       (test_msg 100 []) [0xfd] = Return r mf
     \<and> 0 \<le> gas_left r \<and> gas_left r \<le> 100
     \<and> status_code r = EVMC_UNDEFINED_INSTRUCTION \<and> gas_left r = 0 \<and> output_data r = []"
proof -
  let ?m = "initial_machine example_vm mocked_host (test_msg 100 [])"
  let ?r = "evmc_make_result EVMC_UNDEFINED_INSTRUCTION 0 []"
  let ?mf = "?m\<lparr>gas_left_local := 99, executed := 1\<rparr>"
  have it: "iteration mocked_host_interface EVMC_FRONTIER (test_msg 100 []) [0xfd] ?m
      = Return ?r ?mf"
    by (simp add: iteration_def dispatch_def op_REVERT_def initial_machine_def test_msg_def)
  have pc: "pc ?m < length [0xfd :: uint8_t]"
    by (simp add: initial_machine_def)
  note t = gas_left_bounds [where msg = "test_msg 100 []" and vm = example_vm
      and host = mocked_host_interface and ctx = mocked_host
      and revision = EVMC_FRONTIER and code = "[0xfd]" and r = ?r and mf = ?mf and m = ?m]
  from t pc it have "loop mocked_host_interface EVMC_FRONTIER (test_msg 100 []) [0xfd] ?m
      = Return ?r ?mf"
    by blast
  then have e: "execute example_vm mocked_host_interface mocked_host EVMC_FRONTIER
      (test_msg 100 []) [0xfd] = Return ?r ?mf"
    by (simp add: execute_def)
  have g: "0 \<le> gas (test_msg 100 [])" "gas (test_msg 100 []) = 100"
    by (simp_all add: test_msg_def)
  from t e g have "0 \<le> gas_left ?r \<and> gas_left ?r \<le> 100"
    by simp
  moreover from t e have "status_code ?r = EVMC_UNDEFINED_INSTRUCTION
      \<and> gas_left ?r = 0 \<and> output_data ?r = []"
    by simp
  ultimately show ?thesis
    using e by blast
qed

section \<open>REVERT and the revision\<close>

text \<open>
  Claim C5, as the specification states it, makes the output of REVERT the slice of the
  memory from the popped offset on, of the popped length. The program PUSH1 0xaa,
  PUSH1 0, MSTORE, PUSH1 1, ADDRESS, REVERT, run for the destination \<open>0x011f\<close> under
  Byzantium, reverts with the offset \<open>0x011f = 287\<close> and the length 1 on the stack. The
  byte of the memory at 287 is 0, and the output is the byte 0xaa, which is the byte at
  \<open>31 = 287 mod 256\<close>.
\<close>

theorem REVERT_slice_counterexample:
  "returned (execute example_vm mocked_host_interface mocked_host EVMC_BYZANTIUM
      ((test_msg 100 [])\<lparr>destination := 0x011f\<rparr>)
      [0x60, 0xaa, 0x60, 0x00, 0x52, 0x60, 0x01, 0x30, 0xfd])
     = Some \<lparr>status_code = EVMC_REVERT, gas_left = 94, output_data = [0xaa], release = True\<rparr>
   \<and> map_option stack (machine_of (execute example_vm mocked_host_interface mocked_host
        EVMC_BYZANTIUM ((test_msg 100 [])\<lparr>destination := 0x011f\<rparr>)
        [0x60, 0xaa, 0x60, 0x00, 0x52, 0x60, 0x01, 0x30]))
     = Some [0x011f, 0x01]
   \<and> map_option memory (machine_of (execute example_vm mocked_host_interface mocked_host
        EVMC_BYZANTIUM ((test_msg 100 [])\<lparr>destination := 0x011f\<rparr>)
        [0x60, 0xaa, 0x60, 0x00, 0x52, 0x60, 0x01, 0x30, 0xfd]))
     = Some \<lparr>mem_size = 32, mem_data = replicate 31 0 @ [0xaa] @ replicate 992 0\<rparr>
   \<and> memory_slice \<lparr>mem_size = 32, mem_data = replicate 31 0 @ [0xaa] @ replicate 992 0\<rparr>
        0x011f 1 = [0x00]"
  by code_simp

text \<open>
  Claim C5, amended. When the next instruction is REVERT and gas is left for it: under a
  revision before Byzantium the result has the status \<open>EVMC_UNDEFINED_INSTRUCTION\<close>
  (with \<open>gas_left\<close> 0 and no output), not \<open>EVMC_REVERT\<close>; from Byzantium on, with the
  operands \<open>off\<close> and \<open>len\<close> on top of the stack, the result has the status
  \<open>EVMC_REVERT\<close>, the gas counter after the charge for REVERT, and as its output the
  slice of the memory that starts at \<open>off mod 256\<close> and is \<open>len mod 256\<close> bytes long. For
  operands below 256 this is the slice \<open>[off, off + len)\<close>.
\<close>

theorem REVERT_by_revision:
  "(pc m < length code \<and> code ! pc m = 0xfd \<and> 0 < gas_left_local m
      \<and> revision_number revision < revision_number EVMC_BYZANTIUM
    \<longrightarrow> returned (loop host revision msg code m)
          = Some (evmc_make_result EVMC_UNDEFINED_INSTRUCTION 0 []))
   \<and> (pc m < length code \<and> code ! pc m = 0xfd \<and> 0 < gas_left_local m
      \<and> revision_number EVMC_BYZANTIUM \<le> revision_number revision
      \<and> stack m = off # len # rest
    \<longrightarrow> returned (loop host revision msg code m)
          = Some (evmc_make_result EVMC_REVERT (gas_left_local m - 1)
              (memory_slice (memory m) (unat off mod 256) (unat len mod 256))))"
  by (auto simp: iteration_def dispatch_def op_REVERT_def with_pop_Cons Let_def returned_def
      unat_byte31)

theorem REVERT_by_revision_witness:
  "returned (loop mocked_host_interface EVMC_FRONTIER (test_msg 100 []) [0xfd]
      (initial_machine example_vm mocked_host (test_msg 100 [])))
     = Some (evmc_make_result EVMC_UNDEFINED_INSTRUCTION 0 [])
   \<and> returned (loop mocked_host_interface EVMC_BYZANTIUM (test_msg 100 []) [0xfd]
      ((initial_machine example_vm mocked_host (test_msg 100 []))\<lparr>stack := [0x00, 0x02]\<rparr>))
     = Some (evmc_make_result EVMC_REVERT 99 (replicate 2 0x00))"
  using REVERT_by_revision
    [where m = "initial_machine example_vm mocked_host (test_msg 100 [])"
       and code = "[0xfd]" and revision = EVMC_FRONTIER and host = mocked_host_interface
       and msg = "test_msg 100 []"]
    REVERT_by_revision
    [where m = "(initial_machine example_vm mocked_host (test_msg 100 []))
         \<lparr>stack := [0x00, 0x02]\<rparr>"
       and code = "[0xfd]" and revision = EVMC_BYZANTIUM and host = mocked_host_interface
       and msg = "test_msg 100 []" and off = "0x00" and len = "0x02" and rest = "[]"]
  by (simp add: initial_machine_def test_msg_def memory_slice_def)

section \<open>CALL\<close>

text \<open>
  Claim C6, as the specification states it, copies \<open>min (out-len, output length)\<close> bytes
  of the nested output. The program ADDRESS, PUSH1 0, DUP1 (five times), CALL, PUSH1 3,
  PUSH1 0, RETURN, run for the destination \<open>0x0100\<close>, calls with all operands 0 except
  out-len, which is \<open>0x0100 = 256\<close>. The host returns the three bytes 0xaa, 0xbb, 0xcc.
  The claim has these three bytes copied to the memory at 0; the program returns the
  first three bytes of the memory, and they are 0: nothing was copied.
\<close>

theorem CALL_copy_counterexample:
  "returned (execute example_vm mocked_host_interface
      (mocked_host\<lparr>call_result := \<lparr>status_code = EVMC_SUCCESS, gas_left = 0,
         output_data = [0xaa, 0xbb, 0xcc], release = True\<rparr>\<rparr>)
      EVMC_BERLIN ((test_msg 100 [])\<lparr>destination := 0x0100\<rparr>)
      [0x30, 0x60, 0x00, 0x80, 0x80, 0x80, 0x80, 0x80, 0xf1, 0x60, 0x03, 0x60, 0x00, 0xf3])
     = Some \<lparr>status_code = EVMC_SUCCESS, gas_left = 89, output_data = [0x00, 0x00, 0x00],
             release = True\<rparr>
   \<and> map_option stack (machine_of (execute example_vm mocked_host_interface
      (mocked_host\<lparr>call_result := \<lparr>status_code = EVMC_SUCCESS, gas_left = 0,
         output_data = [0xaa, 0xbb, 0xcc], release = True\<rparr>\<rparr>)
      EVMC_BERLIN ((test_msg 100 [])\<lparr>destination := 0x0100\<rparr>)
      [0x30, 0x60, 0x00, 0x80, 0x80, 0x80, 0x80, 0x80]))
     = Some [0, 0, 0, 0, 0, 0, 0x0100]"
  by code_simp

text \<open>
  Claim C6, amended. In a state within the bounds of the arrays, with the seven operands
  of CALL on the stack and \<open>res\<close> the result of the host for the message built from the
  first five, CALL replaces the operands by 1 if the status of \<open>res\<close> is \<open>EVMC_SUCCESS\<close>
  and by 0 otherwise; it copies the first \<open>n\<close> bytes of the output of \<open>res\<close> to the
  memory at \<open>o\<close>, where \<open>o\<close> is out-off modulo 256 and \<open>n\<close> the smaller of out-len modulo
  256 and the length of the output, and leaves every other byte of the memory as it was;
  and it calls the release function of \<open>res\<close>, if there is one, within the same step.
\<close>

theorem CALL_flag_copy_release:
  "within_capacity m \<Longrightarrow>
   stack m = g # a # v # in_off # in_size # out_off # out_size # rest \<Longrightarrow>
   code ! pc m = 0xf1 \<Longrightarrow>
   call host (host_context m) (make_call_msg (memory m) g a v in_off in_size) = (res, h) \<Longrightarrow>
   off = unat out_off mod 256 \<Longrightarrow>
   n = min (unat out_size mod 256) (length (output_data res)) \<Longrightarrow>
   dispatch host revision msg code m =
     Continue (m\<lparr>stack := (if status_code res = EVMC_SUCCESS then 1 else 0) # rest,
        memory := \<lparr>mem_size = max (mem_size (memory m)) (off + n),
          mem_data = take off (mem_data (memory m)) @ take n (output_data res)
            @ drop (off + n) (mem_data (memory m))\<rparr>,
        host_context := h,
        released := (if release res then released m @ [res] else released m)\<rparr>)"
  by (simp add: CALL_step)

theorem CALL_flag_copy_release_witness:
  "dispatch mocked_host_interface EVMC_BERLIN (test_msg 100 []) [0xf1]
     ((initial_machine example_vm
         (mocked_host\<lparr>call_result := \<lparr>status_code = EVMC_FAILURE, gas_left = 0,
            output_data = [0xaa, 0xbb, 0xcc], release = True\<rparr>\<rparr>) (test_msg 100 []))
        \<lparr>stack := [3, 3, 3, 3, 3, 3, 5]\<rparr>)
   = Continue ((initial_machine example_vm
         (mocked_host\<lparr>call_result := \<lparr>status_code = EVMC_FAILURE, gas_left = 0,
            output_data = [0xaa, 0xbb, 0xcc], release = True\<rparr>\<rparr>) (test_msg 100 []))
        \<lparr>stack := [0],
         memory := \<lparr>mem_size = 6,
           mem_data = replicate 3 0 @ [0xaa, 0xbb, 0xcc] @ replicate 1018 0\<rparr>,
         host_context := mocked_host\<lparr>call_result := \<lparr>status_code = EVMC_FAILURE,
            gas_left = 0, output_data = [0xaa, 0xbb, 0xcc], release = True\<rparr>,
            recorded_calls := [\<lparr>kind = EVMC_CALL, flags = 0, depth = 0, gas = 3,
               destination = 3, sender = 0, input_data = replicate 3 0, msg_value = 3\<rparr>]\<rparr>,
         released := [\<lparr>status_code = EVMC_FAILURE, gas_left = 0,
            output_data = [0xaa, 0xbb, 0xcc], release = True\<rparr>]\<rparr>)"
proof -
  let ?res = "\<lparr>status_code = EVMC_FAILURE, gas_left = 0,
      output_data = [0xaa, 0xbb, 0xcc], release = True\<rparr>"
  let ?h = "mocked_host\<lparr>call_result := ?res\<rparr>"
  let ?m = "(initial_machine example_vm ?h (test_msg 100 []))\<lparr>stack := [3, 3, 3, 3, 3, 3, 5]\<rparr>"
  let ?msg = "\<lparr>kind = EVMC_CALL, flags = 0, depth = 0, gas = 3,
      destination = 3, sender = 0, input_data = replicate 3 0, msg_value = 3\<rparr>"
  have msg: "make_call_msg (memory ?m) 3 3 3 3 3 = ?msg"
    by (simp add: make_call_msg_def initial_machine_def memory_slice_def byte31_def)
  have c: "call mocked_host_interface (host_context ?m) (make_call_msg (memory ?m) 3 3 3 3 3)
      = (?res, ?h\<lparr>recorded_calls := [?msg]\<rparr>)"
    unfolding msg by (simp add: mocked_host_interface_def initial_machine_def mocked_host_def)
  have cap: "within_capacity ?m"
    by (simp add: within_capacity_def initial_machine_def)
  have st: "stack ?m = [3, 3, 3, 3, 3, 3, 5]" and op: "[0xf1 :: uint8_t] ! pc ?m = 0xf1"
    by (simp_all add: initial_machine_def)
  have off: "3 = unat (3 :: evmc_uint256be) mod 256"
    and n: "3 = min (unat (5 :: evmc_uint256be) mod 256) (length (output_data ?res))"
    by simp_all
  have "dispatch mocked_host_interface EVMC_BERLIN (test_msg 100 []) [0xf1] ?m
      = Continue (?m\<lparr>stack := (if status_code ?res = EVMC_SUCCESS then 1 else 0) # [],
          memory := \<lparr>mem_size = max (mem_size (memory ?m)) (3 + 3),
            mem_data = take 3 (mem_data (memory ?m)) @ take 3 (output_data ?res)
              @ drop (3 + 3) (mem_data (memory ?m))\<rparr>,
          host_context := ?h\<lparr>recorded_calls := [?msg]\<rparr>,
          released := (if release ?res then released ?m @ [?res] else released ?m)\<rparr>)"
    by (rule CALL_flag_copy_release [OF cap st op c off n])
  then show ?thesis
    by (simp add: initial_machine_def)
qed

section \<open>Facts about the conversion of numbers\<close>













section \<open>The verbosity option\<close>



lemma set_option_every_strtol:
  "(fst (set_option strtol vm name val) = EVMC_SET_OPTION_SUCCESS
      \<longleftrightarrow> name = ''verbose''
          \<and> (\<exists>s. val = Some s \<and> snd (strtol s 0) \<noteq> 0
                \<and> - 1 \<le> fst (strtol s 0) \<and> fst (strtol s 0) \<le> 9))
   \<and> (name = ''verbose'' \<and> val = Some s \<and> snd (strtol s 0) \<noteq> 0
        \<and> - 1 \<le> fst (strtol s 0) \<and> fst (strtol s 0) \<le> 9
      \<longrightarrow> set_option strtol vm name val
            = (EVMC_SET_OPTION_SUCCESS, vm\<lparr>verbose := fst (strtol s 0)\<rparr>))
   \<and> (name = ''verbose'' \<and> fst (set_option strtol vm name val) \<noteq> EVMC_SET_OPTION_SUCCESS
      \<longrightarrow> set_option strtol vm name val = (EVMC_SET_OPTION_INVALID_VALUE, vm))
   \<and> (name \<noteq> ''verbose''
      \<longrightarrow> set_option strtol vm name val = (EVMC_SET_OPTION_INVALID_NAME, vm))"
  by (auto simp: set_option_def Let_def split: option.splits prod.splits if_splits)




text \<open>
  More values: octal and negative numbers, a number out of the range of \<^verbatim>\<open>long\<close>, the
  empty string.
\<close>

lemma set_option_verbose_examples:
  "set_option c_strtol \<lparr>verbose = 0\<rparr> ''verbose'' (Some ''-1'')
     = (EVMC_SET_OPTION_SUCCESS, \<lparr>verbose = - 1\<rparr>)"
  "set_option c_strtol \<lparr>verbose = 0\<rparr> ''verbose'' (Some ''-2'')
     = (EVMC_SET_OPTION_INVALID_VALUE, \<lparr>verbose = 0\<rparr>)"
  "set_option c_strtol \<lparr>verbose = 0\<rparr> ''verbose'' (Some ''08'')
     = (EVMC_SET_OPTION_SUCCESS, \<lparr>verbose = 0\<rparr>)"
  "set_option c_strtol \<lparr>verbose = 0\<rparr> ''verbose'' (Some ''0x'')
     = (EVMC_SET_OPTION_SUCCESS, \<lparr>verbose = 0\<rparr>)"
  "set_option c_strtol \<lparr>verbose = 0\<rparr> ''verbose'' (Some ''99999999999999999999'')
     = (EVMC_SET_OPTION_INVALID_VALUE, \<lparr>verbose = 0\<rparr>)"
  "set_option c_strtol \<lparr>verbose = 0\<rparr> ''verbose'' (Some [])
     = (EVMC_SET_OPTION_INVALID_VALUE, \<lparr>verbose = 0\<rparr>)"
  by code_simp+

section \<open>ADDRESS and NUMBER\<close>

text \<open>
  Claim C9. At any two points \<open>m1\<close> and \<open>m2\<close> of an execution (the same host, revision,
  message and code) where the next instruction is ADDRESS and the stack has room,
  ADDRESS pushes the same word at both: the destination of the message, extended by
  zeros. The same holds for NUMBER when the host reports the same transaction context at
  both points: the word pushed is the lowest byte of the block number reported.
\<close>

theorem ADDRESS_NUMBER_repeatable:
  "(length (stack m1) < 1024 \<and> length (stack m2) < 1024
      \<and> code ! pc m1 = 0x30 \<and> code ! pc m2 = 0x30
    \<longrightarrow> (\<exists>w. dispatch host revision msg code m1 = Continue (m1\<lparr>stack := w # stack m1\<rparr>)
           \<and> dispatch host revision msg code m2 = Continue (m2\<lparr>stack := w # stack m2\<rparr>)
           \<and> w = ucast (destination msg)))
   \<and> (length (stack m1) < 1024 \<and> length (stack m2) < 1024
      \<and> code ! pc m1 = 0x43 \<and> code ! pc m2 = 0x43
      \<and> fst (get_tx_context host (host_context m1)) = fst (get_tx_context host (host_context m2))
    \<longrightarrow> (\<exists>w h1 h2.
           dispatch host revision msg code m1
             = Continue (m1\<lparr>stack := w # stack m1, host_context := h1\<rparr>)
           \<and> dispatch host revision msg code m2
             = Continue (m2\<lparr>stack := w # stack m2, host_context := h2\<rparr>)
           \<and> w = uint256be_of_byte
                 (word_of_int (block_number (fst (get_tx_context host (host_context m1)))))))"
  by (auto simp: dispatch_def op_ADDRESS_def op_NUMBER_def with_push_room Let_def
      split: prod.splits)

theorem ADDRESS_NUMBER_repeatable_witness:
  "(\<exists>w. dispatch mocked_host_interface EVMC_BERLIN (test_msg 100 []) [0x30, 0x30]
          (initial_machine example_vm mocked_host (test_msg 100 []))
        = Continue ((initial_machine example_vm mocked_host (test_msg 100 []))\<lparr>stack := [w]\<rparr>)
      \<and> dispatch mocked_host_interface EVMC_BERLIN (test_msg 100 []) [0x30, 0x30]
          ((initial_machine example_vm mocked_host (test_msg 100 []))\<lparr>pc := 1, stack := [7]\<rparr>)
        = Continue ((initial_machine example_vm mocked_host (test_msg 100 []))
            \<lparr>pc := 1, stack := [w, 7]\<rparr>)
      \<and> w = 0xd00000000000000000000000000000000000000d)
   \<and> (\<exists>w h1 h2. dispatch mocked_host_interface EVMC_BERLIN (test_msg 100 []) [0x43, 0x43]
          (initial_machine example_vm
             (mocked_host\<lparr>tx_context := (tx_context mocked_host)\<lparr>block_number := 0x1b4\<rparr>\<rparr>)
             (test_msg 100 []))
        = Continue ((initial_machine example_vm
             (mocked_host\<lparr>tx_context := (tx_context mocked_host)\<lparr>block_number := 0x1b4\<rparr>\<rparr>)
             (test_msg 100 []))
            \<lparr>stack := [w], host_context := h1\<rparr>)
      \<and> dispatch mocked_host_interface EVMC_BERLIN (test_msg 100 []) [0x43, 0x43]
          ((initial_machine example_vm
             (mocked_host\<lparr>tx_context := (tx_context mocked_host)\<lparr>block_number := 0x1b4\<rparr>\<rparr>)
             (test_msg 100 []))\<lparr>pc := 1, stack := [7]\<rparr>)
        = Continue ((initial_machine example_vm
             (mocked_host\<lparr>tx_context := (tx_context mocked_host)\<lparr>block_number := 0x1b4\<rparr>\<rparr>)
             (test_msg 100 []))
            \<lparr>pc := 1, stack := [w, 7], host_context := h2\<rparr>)
      \<and> w = 0xb4)"
proof -
  let ?m = "initial_machine example_vm mocked_host (test_msg 100 [])"
  let ?h = "mocked_host\<lparr>tx_context := (tx_context mocked_host)\<lparr>block_number := 0x1b4\<rparr>\<rparr>"
  let ?n = "initial_machine example_vm ?h (test_msg 100 [])"
  have d: "(ucast (destination (test_msg 100 [])) :: evmc_uint256be)
      = 0xd00000000000000000000000000000000000000d"
    by (simp add: test_msg_def)
  have b: "uint256be_of_byte (word_of_int (block_number
      (fst (get_tx_context mocked_host_interface (host_context ?n))))) = 0xb4"
    by (simp add: mocked_host_interface_def initial_machine_def mocked_host_def
        uint256be_of_byte_def)
  have 1: "\<exists>w. dispatch mocked_host_interface EVMC_BERLIN (test_msg 100 []) [0x30, 0x30] ?m
        = Continue (?m\<lparr>stack := [w]\<rparr>)
      \<and> dispatch mocked_host_interface EVMC_BERLIN (test_msg 100 []) [0x30, 0x30]
          (?m\<lparr>pc := 1, stack := [7]\<rparr>) = Continue (?m\<lparr>pc := 1, stack := [w, 7]\<rparr>)
      \<and> w = 0xd00000000000000000000000000000000000000d"
    using ADDRESS_NUMBER_repeatable
      [where ?m1.0 = ?m and ?m2.0 = "?m\<lparr>pc := 1, stack := [7]\<rparr>"
         and code = "[0x30, 0x30]" and host = mocked_host_interface and revision = EVMC_BERLIN
         and msg = "test_msg 100 []"]
    unfolding d by (simp add: initial_machine_def)
  have 2: "\<exists>w h1 h2. dispatch mocked_host_interface EVMC_BERLIN (test_msg 100 []) [0x43, 0x43] ?n
        = Continue (?n\<lparr>stack := [w], host_context := h1\<rparr>)
      \<and> dispatch mocked_host_interface EVMC_BERLIN (test_msg 100 []) [0x43, 0x43]
          (?n\<lparr>pc := 1, stack := [7]\<rparr>)
        = Continue (?n\<lparr>pc := 1, stack := [w, 7], host_context := h2\<rparr>)
      \<and> w = 0xb4"
    using ADDRESS_NUMBER_repeatable
      [where ?m1.0 = ?n and ?m2.0 = "?n\<lparr>pc := 1, stack := [7]\<rparr>"
         and code = "[0x43, 0x43]" and host = mocked_host_interface and revision = EVMC_BERLIN
         and msg = "test_msg 100 []"]
    unfolding b by (simp add: initial_machine_def)
  from 1 2 show ?thesis
    by (rule conjI)
qed

section \<open>One gas for every instruction\<close>

text \<open>
  Claim C10, as derived from the code, returns \<open>EVMC_OUT_OF_GAS\<close> exactly when the initial
  gas is smaller than the number of instructions the code would execute. The empty code
  executes no instruction, and a message with the gas \<open>-1\<close> has less gas than that; the
  result is \<open>EVMC_SUCCESS\<close>, since the loop that checks the gas is not entered.
\<close>

theorem gas_accounting_counterexample:
  "returned (execute example_vm mocked_host_interface mocked_host EVMC_BERLIN
      (test_msg (- 1) []) [])
     = Some \<lparr>status_code = EVMC_SUCCESS, gas_left = - 1, output_data = [], release = False\<rparr>
   \<and> map_option executed (machine_of (execute example_vm mocked_host_interface mocked_host
        EVMC_BERLIN (test_msg 1000 []) [])) = Some 0"
  by code_simp

text \<open>
  With the least value of \<^verbatim>\<open>int64_t\<close> in the gas counter the first charge has no
  defined result; what is said about the gas below leaves that value out.
\<close>

lemma loop_gas_counter_overflow:
  "pc m < length code \<Longrightarrow> gas_left_local m = - (2 ^ 63) \<Longrightarrow>
     loop host revision msg code m = Undefined Gas_Counter_Overflow"
  by (subst loop.simps) (simp add: iteration_def)

text \<open>
  Claim C10, amended. Every instruction is charged exactly 1 gas, and the charge comes
  before the instruction: with a gas counter above 0 the instruction is dispatched in
  the state in which the counter is already one less, and a pass that goes on to the
  next instruction leaves the counter at exactly that value, whatever the instruction
  and its operands; with a gas counter of 0 or less (and above the least \<^verbatim>\<open>int64_t\<close>)
  the instruction is not run at all: the result is \<open>EVMC_OUT_OF_GAS\<close> and nothing but
  the gas counter has changed, neither the stack, nor the memory, nor the host. Hence a
  run that starts with a gas above the least \<^verbatim>\<open>int64_t\<close> and returns \<open>EVMC_SUCCESS\<close> or
  \<open>EVMC_REVERT\<close> (by STOP, RETURN, REVERT or the end of the code) after \<open>n\<close> instructions
  returns the initial gas minus \<open>n\<close> as \<open>gas_left\<close>. And if a run of the code returns
  without running out of gas after \<open>n\<close> instructions, then the run with an initial gas
  \<open>g\<close> that is not negative, everything else the same, returns \<open>EVMC_OUT_OF_GAS\<close>
  exactly when \<open>g < n\<close>.
\<close>

theorem gas_accounting:
  "(0 < gas_left_local m
    \<longrightarrow> iteration host revision msg code m =
          (case dispatch host revision msg code
                  (m\<lparr>gas_left_local := gas_left_local m - 1, executed := executed m + 1\<rparr>) of
             Continue m2 \<Rightarrow> Continue (m2\<lparr>pc := pc m2 + 1\<rparr>)
           | Return r2 m2 \<Rightarrow> Return r2 m2
           | Undefined u \<Rightarrow> Undefined u))
   \<and> (- (2 ^ 63) < gas_left_local m \<and> gas_left_local m \<le> 0
    \<longrightarrow> iteration host revision msg code m =
          Return (evmc_make_result EVMC_OUT_OF_GAS 0 [])
            (m\<lparr>gas_left_local := gas_left_local m - 1\<rparr>))
   \<and> (iteration host revision msg code m = Continue m'
    \<longrightarrow> gas_left_local m' = gas_left_local m - 1 \<and> executed m' = executed m + 1)
   \<and> (- (2 ^ 63) < gas msg \<and> execute vm host ctx revision msg code = Return r mf
        \<and> (status_code r = EVMC_SUCCESS \<or> status_code r = EVMC_REVERT)
    \<longrightarrow> gas_left r = gas msg - int (executed mf))
   \<and> (execute vm host ctx revision msg code = Return r mf
        \<and> status_code r \<noteq> EVMC_OUT_OF_GAS \<and> 0 \<le> g
    \<longrightarrow> (map_option status_code (returned (execute vm host ctx revision (msg\<lparr>gas := g\<rparr>) code))
           = Some EVMC_OUT_OF_GAS
         \<longleftrightarrow> g < int (executed mf)))"
proof (intro conjI impI)
  assume "0 < gas_left_local m"
  then show "iteration host revision msg code m =
          (case dispatch host revision msg code
                  (m\<lparr>gas_left_local := gas_left_local m - 1, executed := executed m + 1\<rparr>) of
             Continue m2 \<Rightarrow> Continue (m2\<lparr>pc := pc m2 + 1\<rparr>)
           | Return r2 m2 \<Rightarrow> Return r2 m2
           | Undefined u \<Rightarrow> Undefined u)"
    by (simp add: iteration_def)
next
  assume "- (2 ^ 63) < gas_left_local m \<and> gas_left_local m \<le> 0"
  then show "iteration host revision msg code m =
          Return (evmc_make_result EVMC_OUT_OF_GAS 0 [])
            (m\<lparr>gas_left_local := gas_left_local m - 1\<rparr>)"
    by (simp add: iteration_def)
next
  assume "iteration host revision msg code m = Continue m'"
  from iteration_Continue [OF this]
  show "gas_left_local m' = gas_left_local m - 1" and "executed m' = executed m + 1"
    by simp_all
next
  assume a: "- (2 ^ 63) < gas msg \<and> execute vm host ctx revision msg code = Return r mf
      \<and> (status_code r = EVMC_SUCCESS \<or> status_code r = EVMC_REVERT)"
  then have "loop host revision msg code (initial_machine vm ctx msg) = Return r mf"
    by (simp add: execute_def)
  from loop_Return [OF this] a show "gas_left r = gas msg - int (executed mf)"
    by (auto simp: initial_machine_def)
next
  let ?m = "initial_machine vm ctx msg"
  assume a: "execute vm host ctx revision msg code = Return r mf
      \<and> status_code r \<noteq> EVMC_OUT_OF_GAS \<and> 0 \<le> g"
  then have l: "loop host revision msg code ?m = Return r mf"
    and st: "status_code r \<noteq> EVMC_OUT_OF_GAS" and g: "0 \<le> g"
    by (simp_all add: execute_def)
  have e0: "executed ?m = 0"
    by (simp add: initial_machine_def)
  have init: "initial_machine vm ctx (msg\<lparr>gas := g\<rparr>) = ?m\<lparr>gas_left_local := g\<rparr>"
    by (simp add: initial_machine_def)
  have run: "execute vm host ctx revision (msg\<lparr>gas := g\<rparr>) code
      = loop host revision msg code (?m\<lparr>gas_left_local := g\<rparr>)"
    by (simp only: execute_def init loop_msg_gas)
  show "map_option status_code (returned (execute vm host ctx revision (msg\<lparr>gas := g\<rparr>) code))
           = Some EVMC_OUT_OF_GAS
         \<longleftrightarrow> g < int (executed mf)"
  proof (cases "g < int (executed mf)")
    case True
    with loop_out_of_gas [OF l st g] e0 obtain mo
      where "loop host revision msg code (?m\<lparr>gas_left_local := g\<rparr>)
        = Return (evmc_make_result EVMC_OUT_OF_GAS 0 []) mo"
      by auto
    with True run show ?thesis
      by (simp add: returned_def)
  next
    case False
    with e0 have "int (executed mf) - int (executed ?m) \<le> g"
      by simp
    from loop_regas [OF l st this] e0
    have "loop host revision msg code (?m\<lparr>gas_left_local := g\<rparr>)
        = regas (g - int (executed mf)) (Return r mf)"
      by simp
    with False run st show ?thesis
      by (simp add: returned_def)
  qed
qed

theorem gas_accounting_witness:
  "\<exists>r mf m'. iteration mocked_host_interface EVMC_BERLIN (test_msg 3 []) [0x30, 0x30, 0x00]
       (initial_machine example_vm mocked_host (test_msg 3 [])) = Continue m'
     \<and> gas_left_local m' = 3 - 1 \<and> executed m' = 0 + 1
     \<and> iteration mocked_host_interface EVMC_BERLIN (test_msg 0 []) [0x55]
         ((initial_machine example_vm mocked_host (test_msg 0 []))\<lparr>stack := [0, 0xbb]\<rparr>)
       = Return (evmc_make_result EVMC_OUT_OF_GAS 0 [])
           ((initial_machine example_vm mocked_host (test_msg 0 []))
              \<lparr>stack := [0, 0xbb], gas_left_local := - 1\<rparr>)
     \<and> execute example_vm mocked_host_interface mocked_host EVMC_BERLIN (test_msg 3 [])
         [0x30, 0x30, 0x00] = Return r mf
     \<and> status_code r = EVMC_SUCCESS \<and> executed mf = 3 \<and> gas_left r = 3 - 3
     \<and> map_option status_code (returned (execute example_vm mocked_host_interface mocked_host
           EVMC_BERLIN ((test_msg 3 [])\<lparr>gas := 2\<rparr>) [0x30, 0x30, 0x00])) = Some EVMC_OUT_OF_GAS
     \<and> map_option status_code (returned (execute example_vm mocked_host_interface mocked_host
           EVMC_BERLIN ((test_msg 3 [])\<lparr>gas := 3\<rparr>) [0x30, 0x30, 0x00])) \<noteq> Some EVMC_OUT_OF_GAS"
proof -
  let ?code = "[0x30, 0x30, 0x00 :: uint8_t]"
  let ?m = "initial_machine example_vm mocked_host (test_msg 3 [])"
  let ?z = "(initial_machine example_vm mocked_host (test_msg 0 []))\<lparr>stack := [0, 0xbb]\<rparr>"
  let ?run = "execute example_vm mocked_host_interface mocked_host EVMC_BERLIN (test_msg 3 [])
      ?code"
  have "returned ?run \<noteq> None"
    by code_simp
  then obtain r mf where e: "?run = Return r mf"
    by (cases ?run) (simp_all add: returned_def)
  have "returned ?run = Some \<lparr>status_code = EVMC_SUCCESS, gas_left = 0, output_data = [],
      release = False\<rparr>" and "map_option executed (machine_of ?run) = Some 3"
    by code_simp+
  with e have r: "status_code r = EVMC_SUCCESS" and n: "executed mf = 3"
    by (simp_all add: returned_def machine_of_def)
  have g: "gas_left_local ?m = 3" "executed ?m = 0" "gas (test_msg 3 []) = 3"
    by (simp_all add: initial_machine_def test_msg_def)
  have z: "gas_left_local ?z = 0"
    by (simp add: initial_machine_def test_msg_def)
  obtain m2 where d: "dispatch mocked_host_interface EVMC_BERLIN (test_msg 3 []) ?code
      (?m\<lparr>gas_left_local := gas_left_local ?m - 1, executed := executed ?m + 1\<rparr>) = Continue m2"
    by (simp add: dispatch_def op_ADDRESS_def with_push_room initial_machine_def Let_def)
  note t = gas_accounting [where host = mocked_host_interface and revision = EVMC_BERLIN
      and vm = example_vm and ctx = mocked_host and r = r and mf = mf]
  note s = t [where msg = "test_msg 3 []" and code = ?code and m = ?m]
  from s [where g = 0 and m' = "m2\<lparr>pc := pc m2 + 1\<rparr>"] g d
  have it: "iteration mocked_host_interface EVMC_BERLIN (test_msg 3 []) ?code ?m
      = Continue (m2\<lparr>pc := pc m2 + 1\<rparr>)"
    by simp
  with s [where g = 0 and m' = "m2\<lparr>pc := pc m2 + 1\<rparr>"] g
  have 1: "gas_left_local (m2\<lparr>pc := pc m2 + 1\<rparr>) = 3 - 1
      \<and> executed (m2\<lparr>pc := pc m2 + 1\<rparr>) = 0 + 1"
    by simp
  from t [where msg = "test_msg 0 []" and code = "[0x55]" and m = ?z and g = 0
      and m' = ?z] z
  have 0: "iteration mocked_host_interface EVMC_BERLIN (test_msg 0 []) [0x55] ?z
      = Return (evmc_make_result EVMC_OUT_OF_GAS 0 []) (?z\<lparr>gas_left_local := - 1\<rparr>)"
    by simp
  from s [where g = 0 and m' = ?m] e r n g have 2: "gas_left r = 3 - 3"
    by simp
  from s [where g = 2 and m' = ?m] e r n
  have 3: "map_option status_code (returned (execute example_vm mocked_host_interface
      mocked_host EVMC_BERLIN ((test_msg 3 [])\<lparr>gas := 2\<rparr>) ?code)) = Some EVMC_OUT_OF_GAS"
    by simp
  from s [where g = 3 and m' = ?m] e r n
  have 4: "map_option status_code (returned (execute example_vm mocked_host_interface
      mocked_host EVMC_BERLIN ((test_msg 3 [])\<lparr>gas := 3\<rparr>) ?code)) \<noteq> Some EVMC_OUT_OF_GAS"
    by simp
  from it 1 0 e r n 2 3 4 show ?thesis
    by blast
qed

end
